theory Spec2Isabelle
  imports Complex_Main "HOL-Library.Multiset"
begin

section \<open>Python values used by the retrieval engine and the orchestrator\<close>

text \<open>
  An exception caught by \<^verbatim>\<open>except Exception as e\<close> is a value carrying the text that
  \<^verbatim>\<open>str(e)\<close> yields. A function that may raise returns \<open>exn + 'a\<close>, \<open>Inl\<close> being the raise.
  Interrupts of the interpreter (\<^verbatim>\<open>KeyboardInterrupt\<close>, \<^verbatim>\<open>SystemExit\<close>) are not modelled.
\<close>

datatype exn = Exception string

fun str :: "exn \<Rightarrow> string" where
  "str (Exception msg) = msg"

text \<open>\<^verbatim>\<open>langchain_core.documents.Document\<close>: the text of a chunk and its metadata.\<close>

record Document =
  page_content :: string
  metadata :: "(string \<times> string) list"

text \<open>
  The two retrieval constants of \<^verbatim>\<open>settings.py\<close>. They are Python ints read from the
  environment, 20 and 3 unless overridden.
\<close>

record Settings =
  SEARCH_K_RAW :: int
  SEARCH_K_FINAL :: int

definition default_settings :: Settings where
  "default_settings = \<lparr>SEARCH_K_RAW = 20, SEARCH_K_FINAL = 3\<rparr>"

text \<open>
  \<^verbatim>\<open>list.sort(key=..., reverse=...)\<close>. The sort of Python is stable; a stable sort is
  determined by its input and key, so the stable insertion sort \<^const>\<open>sort_key\<close> stands
  for it. With \<^verbatim>\<open>reverse=True\<close> CPython reverses the list, sorts it forward and reverses
  the result, which keeps equal keys in their original order.
  Scores are floats; they are modelled as reals, so NaN is outside the model.
\<close>

definition list_sort :: "('a \<Rightarrow> 'k::linorder) \<Rightarrow> bool \<Rightarrow> 'a list \<Rightarrow> 'a list" where
  "list_sort key reverse xs =
     (if reverse then rev (sort_key key (rev xs)) else sort_key key xs)"

text \<open>
  The slice \<^verbatim>\<open>xs[:k]\<close> for a Python int \<open>k\<close>: the first \<open>k\<close> elements, and for a negative
  \<open>k\<close> all but the last \<open>-k\<close>, the stop index clamped at 0.
\<close>

definition slice_to :: "int \<Rightarrow> 'a list \<Rightarrow> 'a list" where
  "slice_to k xs =
     (if 0 \<le> k then take (nat k) xs else take (length xs - nat (- k)) xs)"

section \<open>The retrieval engine (\<^verbatim>\<open>vector_retriever.py\<close>)\<close>

text \<open>
  The Chroma store and the cross-encoder are collaborators outside the repository. They
  are the two fields of the retriever: \<open>vectordb self query k\<close> is what
  \<^verbatim>\<open>self.vectordb.similarity_search_with_score(query, k=k)\<close> answers and
  \<open>cross_encoder self pairs\<close> what \<^verbatim>\<open>self.cross_encoder.predict(pairs)\<close> answers; either
  may raise.
\<close>

record VectorRetriever =
  vectordb :: "string \<Rightarrow> int \<Rightarrow> exn + (Document \<times> real) list"
  cross_encoder :: "(string \<times> string) list \<Rightarrow> exn + real list"

text \<open>
  The calls a request makes to its collaborators are recorded in order, so that a claim
  about which collaborator is invoked, and with which arguments, can be stated.
\<close>

datatype message = SystemMessage string | HumanMessage string | AIMessage string

datatype call =
    Similarity_search string int
  | Predict "(string \<times> string) list"
  | Ainvoke "message list" "exn + string"

definition retrieve_context_with_scores ::
  "Settings \<Rightarrow> VectorRetriever \<Rightarrow> string \<Rightarrow> call list \<times> (exn + (Document \<times> real) list)" where
  "retrieve_context_with_scores settings self query =
     (let recall = [Similarity_search query (SEARCH_K_RAW settings)] in
      case vectordb self query (SEARCH_K_RAW settings) of
        Inl e \<Rightarrow> (recall, Inl e)
      | Inr results_with_scores \<Rightarrow>
          if results_with_scores = [] then (recall, Inr [])
          else
            let pairs = map (\<lambda>(doc, score). (query, page_content doc)) results_with_scores
            in case cross_encoder self pairs of
                 Inl e \<Rightarrow> (recall @ [Predict pairs], Inr [])
               | Inr rerank_scores \<Rightarrow>
                   let reranked_results =
                         list_sort snd True (zip results_with_scores rerank_scores);
                       top_k_results = slice_to (SEARCH_K_FINAL settings) reranked_results;
                       final_results =
                         map (\<lambda>((doc, old_score), rerank_score). (doc, rerank_score))
                           top_k_results
                   in (recall @ [Predict pairs], Inr final_results))"

definition retrieve_context ::
  "Settings \<Rightarrow> VectorRetriever \<Rightarrow> string \<Rightarrow> call list \<times> (exn + Document list)" where
  "retrieve_context settings self query =
     (case retrieve_context_with_scores settings self query of
        (calls, Inl e) \<Rightarrow> (calls, Inl e)
      | (calls, Inr results_with_scores) \<Rightarrow>
          (calls, Inr (map (\<lambda>(doc, score). doc) results_with_scores)))"

definition retrieve_context_vector_search_only ::
  "Settings \<Rightarrow> VectorRetriever \<Rightarrow> string \<Rightarrow> call list \<times> (exn + (Document \<times> real) list)" where
  "retrieve_context_vector_search_only settings self query =
     (let recall = [Similarity_search query (SEARCH_K_FINAL settings)] in
      case vectordb self query (SEARCH_K_FINAL settings) of
        Inl e \<Rightarrow> (recall, Inr [])
      | Inr results_with_scores \<Rightarrow>
          if results_with_scores = [] then (recall, Inr [])
          else (recall, Inr (list_sort snd False results_with_scores)))"

section \<open>The conversation orchestrator (\<^verbatim>\<open>rag_chain.py\<close>)\<close>

subsection \<open>Strings and time\<close>

text \<open>\<^verbatim>\<open>sep.join(parts)\<close>.\<close>

fun str_join :: "string \<Rightarrow> string list \<Rightarrow> string" where
  "str_join sep [] = []"
| "str_join sep [x] = x"
| "str_join sep (x # y # ys) = x @ sep @ str_join sep (y # ys)"

text \<open>
  \<^verbatim>\<open>s.replace(old, new)\<close>: every occurrence of \<open>old\<close>, found from the left and not
  overlapping, becomes \<open>new\<close>; an empty \<open>old\<close> matches before every character and at
  the end.
\<close>

function str_replace :: "string \<Rightarrow> string \<Rightarrow> string \<Rightarrow> string" where
  "str_replace s old new =
     (if old = [] then new @ concat (map (\<lambda>c. c # new) s)
      else if s = [] then []
      else if take (length old) s = old
        then new @ str_replace (drop (length old) s) old new
      else hd s # str_replace (tl s) old new)"
  by pat_completeness auto
termination
  by (relation "measure (\<lambda>(s, old, new). length s)") auto

text \<open>
  A \<^verbatim>\<open>datetime\<close> has microsecond resolution: it is the integer count of microseconds
  from a fixed origin, and the difference of two of them is a \<^verbatim>\<open>timedelta\<close>, again a
  count of microseconds. \<^verbatim>\<open>timedelta.total_seconds()\<close> divides that count by \<open>10\<^sup>6\<close>
  and returns the float nearest to the quotient. A float is the real number it denotes,
  and \<open>fl\<close> is the rounding of a real number to a float.
\<close>

type_synonym datetime = int
type_synonym timedelta = int

definition total_seconds :: "(real \<Rightarrow> real) \<Rightarrow> timedelta \<Rightarrow> real" where
  "total_seconds fl d = fl (real_of_int d / 1000000)"

subsection \<open>Rows, pipeline state and the world\<close>

text \<open>The table \<^verbatim>\<open>chat_history\<close> of \<^verbatim>\<open>database.py\<close>; \<open>row_id\<close> is its column \<^verbatim>\<open>id\<close>.\<close>

record ChatHistory =
  row_id :: "int option"
  session_id :: string
  user_message :: string
  bot_response :: string
  is_synthetic :: bool
  user_chars :: int
  bot_chars :: int
  user_tokens :: int
  bot_tokens :: int
  request_start_time :: datetime
  retrieval_end_time :: "datetime option"
  response_end_time :: "datetime option"
  retrieval_duration_sec :: real
  generation_duration_sec :: real
  total_duration_sec :: real

text \<open>
  \<^verbatim>\<open>RAGState\<close>, the dictionary threaded through the graph. \<^verbatim>\<open>generate_response\<close> sets
  every key in the initial state, so each node finds every key; a node returns the keys
  it changes and the graph overwrites them in the state.
\<close>

record RAGState =
  st_question :: string
  st_context :: "Document list"
  st_answer :: string
  st_history :: "message list"
  st_request_start_time :: datetime
  st_retrieval_end_time :: datetime
  st_new_message_id :: "int option"
  st_is_synthetic :: bool

text \<open>The \<^verbatim>\<open>metrics\<close> dictionary handed to \<^verbatim>\<open>save_message_async\<close>.\<close>

record Metrics =
  m_user_chars :: int
  m_bot_chars :: int
  m_user_tokens :: int
  m_bot_tokens :: int
  m_request_start_time :: datetime
  m_retrieval_end_time :: datetime
  m_response_end_time :: datetime

text \<open>
  What lies outside one request: the clock (\<open>clock w n\<close> is what the \<open>n\<close>-th call of
  \<^verbatim>\<open>datetime.now()\<close> reads, \<open>ticks\<close> counts the calls made), the rounding of the
  platform's float arithmetic, the rows of the table in insertion order, whether the
  database raises on the query of \<^verbatim>\<open>load_history\<close> or on the commit of
  \<^verbatim>\<open>save_message_async\<close>, and the collaborator calls made so far.
\<close>

record world =
  clock :: "nat \<Rightarrow> datetime"
  ticks :: nat
  to_float :: "real \<Rightarrow> real"
  chat_history :: "ChatHistory list"
  execute_error :: "exn option"
  commit_error :: "exn option"
  calls :: "call list"

definition now :: "world \<Rightarrow> datetime \<times> world" where
  "now w = (clock w (ticks w), w\<lparr>ticks := Suc (ticks w)\<rparr>)"

text \<open>
  The attributes of a \<^verbatim>\<open>RAGChain\<close>. The language model is a collaborator outside the
  repository: \<open>model_ainvoke\<close> answers with the text of the response or raises, and the
  two token counters may raise as well. \<open>strftime\<close> is the standard library's rendering
  of a datetime as \<^verbatim>\<open>%d/%m/%Y\<close>.
\<close>

record RAGChain =
  self_session_id :: string
  model_ainvoke :: "message list \<Rightarrow> exn + string"
  model_get_num_tokens_from_messages :: "message list \<Rightarrow> exn + int"
  model_get_num_tokens :: "string \<Rightarrow> exn + int"
  retriever :: VectorRetriever
  system_prompt :: string
  strftime :: "datetime \<Rightarrow> string"

text \<open>
  The literal prefix of the technical-error answer, \<^verbatim>\<open>Erro t\<close>, U+00E9, \<^verbatim>\<open>cnico: \<close>:
  a character is a code point, and the seventh is the e with an acute accent.
\<close>

definition erro_tecnico :: string where
  "erro_tecnico = ''Erro t'' @ [CHR 0xE9] @ ''cnico: ''"

subsection \<open>The nodes of the graph\<close>

definition load_history :: "RAGChain \<Rightarrow> RAGState \<Rightarrow> world \<Rightarrow> (exn + RAGState) \<times> world" where
  "load_history self state w =
     (case execute_error w of
        Some e \<Rightarrow> (Inl e, w)
      | None \<Rightarrow>
          let history_records =
                sort_key request_start_time
                  (filter (\<lambda>r. session_id r = self_session_id self) (chat_history w));
              messages =
                concat (map (\<lambda>record. [HumanMessage (user_message record),
                                         AIMessage (bot_response record)])
                          history_records)
          in (Inr (state\<lparr>st_history := messages,
                          st_request_start_time := st_request_start_time state,
                          st_new_message_id := None,
                          st_is_synthetic := st_is_synthetic state\<rparr>), w))"

definition retrieve ::
  "Settings \<Rightarrow> RAGChain \<Rightarrow> RAGState \<Rightarrow> world \<Rightarrow> (exn + RAGState) \<times> world" where
  "retrieve settings self state w =
     (let question = st_question state in
      case retrieve_context settings (retriever self) question of
        (made, Inl e) \<Rightarrow> (Inl e, w\<lparr>calls := calls w @ made\<rparr>)
      | (made, Inr retrieved_docs) \<Rightarrow>
          let (t, w') = now (w\<lparr>calls := calls w @ made\<rparr>)
          in (Inr (state\<lparr>st_context := retrieved_docs, st_retrieval_end_time := t\<rparr>), w'))"

text \<open>The id SQLite gives a new row: one more than the largest id in the table.\<close>

definition next_id :: "ChatHistory list \<Rightarrow> int" where
  "next_id rows = fold max (map (\<lambda>r. case row_id r of None \<Rightarrow> 0 | Some i \<Rightarrow> i) rows) 0 + 1"

definition save_message_async ::
  "RAGChain \<Rightarrow> string \<Rightarrow> string \<Rightarrow> bool \<Rightarrow> Metrics \<Rightarrow> world \<Rightarrow> (exn + int option) \<times> world" where
  "save_message_async self user_msg bot_msg is_syn metrics w =
     (let req_start = m_request_start_time metrics;
          ret_end = m_retrieval_end_time metrics;
          res_end = m_response_end_time metrics;
          chat_entry =
            \<lparr>row_id = None,
             session_id = self_session_id self,
             user_message = user_msg,
             bot_response = bot_msg,
             is_synthetic = is_syn,
             user_chars = m_user_chars metrics,
             bot_chars = m_bot_chars metrics,
             user_tokens = m_user_tokens metrics,
             bot_tokens = m_bot_tokens metrics,
             request_start_time = req_start,
             retrieval_end_time = Some ret_end,
             response_end_time = Some res_end,
             retrieval_duration_sec = total_seconds (to_float w) (ret_end - req_start),
             generation_duration_sec = total_seconds (to_float w) (res_end - ret_end),
             total_duration_sec = total_seconds (to_float w) (res_end - req_start)\<rparr>
      in case commit_error w of
           Some e \<Rightarrow> (Inl e, w)
         | None \<Rightarrow>
             let refreshed = chat_entry\<lparr>row_id := Some (next_id (chat_history w))\<rparr>
             in (Inr (row_id refreshed), w\<lparr>chat_history := chat_history w @ [refreshed]\<rparr>))"

definition generate :: "RAGChain \<Rightarrow> RAGState \<Rightarrow> world \<Rightarrow> (exn + RAGState) \<times> world" where
  "generate self state w =
     (let request_start_time = st_request_start_time state;
          retrieval_end_time = st_retrieval_end_time state;
          is_syn = st_is_synthetic state;
          user_msg = st_question state;
          docs_content = str_join [CHR 0x0A, CHR 0x0A] (map page_content (st_context state));
          (today, w1) = now w;
          current_date = strftime self today;
          final_system_prompt =
            str_replace
              (str_replace (system_prompt self) ''{{INSERIR_CONTEXTO_AQUI}}'' docs_content)
              ''{{DATA_ATUAL}}'' current_date;
          messages = [SystemMessage final_system_prompt] @ st_history state
                       @ [HumanMessage user_msg];
          user_tokens = (case model_get_num_tokens_from_messages self messages of
                           Inl e \<Rightarrow> 0 | Inr n \<Rightarrow> n);
          outcome = model_ainvoke self messages;
          w2 = w1\<lparr>calls := calls w1 @ [Ainvoke messages outcome]\<rparr>
      in case outcome of
           Inl e \<Rightarrow>
             (Inr (state\<lparr>st_answer := erro_tecnico @ str e, st_new_message_id := None\<rparr>), w2)
         | Inr answer \<Rightarrow>
             let (response_end_time, w3) = now w2;
                 bot_tokens = (case model_get_num_tokens self answer of
                                 Inl e \<Rightarrow> 0 | Inr n \<Rightarrow> n)
             in case save_message_async self user_msg answer is_syn
                       \<lparr>m_user_chars = int (length user_msg),
                        m_bot_chars = int (length answer),
                        m_user_tokens = user_tokens,
                        m_bot_tokens = bot_tokens,
                        m_request_start_time = request_start_time,
                        m_retrieval_end_time = retrieval_end_time,
                        m_response_end_time = response_end_time\<rparr> w3 of
                  (Inl e, w4) \<Rightarrow> (Inl e, w4)
                | (Inr new_message_id, w4) \<Rightarrow>
                    (Inr (state\<lparr>st_answer := answer, st_new_message_id := new_message_id\<rparr>),
                     w4))"

subsection \<open>The graph and the public entry point\<close>

text \<open>
  The compiled graph runs \<^verbatim>\<open>load_history\<close>, \<^verbatim>\<open>retrieve\<close> and \<^verbatim>\<open>generate\<close> in this order;
  an exception raised by a node ends the run and reaches the caller of \<^verbatim>\<open>ainvoke\<close>.
\<close>

definition graph_ainvoke ::
  "Settings \<Rightarrow> RAGChain \<Rightarrow> RAGState \<Rightarrow> world \<Rightarrow> (exn + RAGState) \<times> world" where
  "graph_ainvoke settings self initial_state w =
     (case load_history self initial_state w of
        (Inl e, w1) \<Rightarrow> (Inl e, w1)
      | (Inr s1, w1) \<Rightarrow>
          (case retrieve settings self s1 w1 of
             (Inl e, w2) \<Rightarrow> (Inl e, w2)
           | (Inr s2, w2) \<Rightarrow> generate self s2 w2))"

text \<open>The dictionary \<^verbatim>\<open>generate_response\<close> returns.\<close>

record Response =
  answer :: string
  message_id :: "int option"

definition generate_response ::
  "Settings \<Rightarrow> RAGChain \<Rightarrow> string \<Rightarrow> bool \<Rightarrow> world \<Rightarrow> (exn + Response) \<times> world" where
  "generate_response settings self question is_syn w =
     (let (t0, w0) = now w;
          (t1, w1) = now w0;
          initial_state =
            \<lparr>st_question = question,
             st_context = [],
             st_answer = [],
             st_history = [],
             st_request_start_time = t0,
             st_retrieval_end_time = t1,
             st_new_message_id = None,
             st_is_synthetic = is_syn\<rparr>
      in case graph_ainvoke settings self initial_state w1 of
           (Inl e, w') \<Rightarrow> (Inl e, w')
         | (Inr result, w') \<Rightarrow>
             (Inr \<lparr>answer = st_answer result, message_id = st_new_message_id result\<rparr>, w'))"

section \<open>Auxiliary definitions\<close>

text \<open>
  The message list \<^const>\<open>generate\<close> sends to the language model from a state and a
  world, the row it persists when the model answers \<open>a\<close>, and the state and world in which
  \<^const>\<open>generate_response\<close> enters \<^const>\<open>generate\<close> once the history is loaded and the
  retrieval has returned \<open>docs\<close> after the calls \<open>made\<close>.
\<close>

definition prompt_of :: "RAGChain \<Rightarrow> RAGState \<Rightarrow> world \<Rightarrow> message list" where
  "prompt_of self state w =
     [SystemMessage
        (str_replace
          (str_replace (system_prompt self) ''{{INSERIR_CONTEXTO_AQUI}}''
             (str_join [CHR 0x0A, CHR 0x0A] (map page_content (st_context state))))
          ''{{DATA_ATUAL}}'' (strftime self (clock w (ticks w))))]
     @ st_history state @ [HumanMessage (st_question state)]"

definition persisted_turn :: "RAGChain \<Rightarrow> RAGState \<Rightarrow> world \<Rightarrow> string \<Rightarrow> ChatHistory" where
  "persisted_turn self state w a =
     \<lparr>row_id = Some (next_id (chat_history w)),
      session_id = self_session_id self,
      user_message = st_question state,
      bot_response = a,
      is_synthetic = st_is_synthetic state,
      user_chars = int (length (st_question state)),
      bot_chars = int (length a),
      user_tokens = (case model_get_num_tokens_from_messages self (prompt_of self state w) of
                       Inl e \<Rightarrow> 0 | Inr n \<Rightarrow> n),
      bot_tokens = (case model_get_num_tokens self a of Inl e \<Rightarrow> 0 | Inr n \<Rightarrow> n),
      request_start_time = st_request_start_time state,
      retrieval_end_time = Some (st_retrieval_end_time state),
      response_end_time = Some (clock w (Suc (ticks w))),
      retrieval_duration_sec =
        total_seconds (to_float w)
          (st_retrieval_end_time state - st_request_start_time state),
      generation_duration_sec =
        total_seconds (to_float w)
          (clock w (Suc (ticks w)) - st_retrieval_end_time state),
      total_duration_sec =
        total_seconds (to_float w)
          (clock w (Suc (ticks w)) - st_request_start_time state)\<rparr>"

definition state_at_generate ::
  "RAGChain \<Rightarrow> string \<Rightarrow> bool \<Rightarrow> world \<Rightarrow> Document list \<Rightarrow> RAGState" where
  "state_at_generate self question is_syn w docs =
     \<lparr>st_question = question,
      st_context = docs,
      st_answer = [],
      st_history =
        concat (map (\<lambda>record. [HumanMessage (user_message record),
                                 AIMessage (bot_response record)])
                 (sort_key request_start_time
                    (filter (\<lambda>r. session_id r = self_session_id self) (chat_history w)))),
      st_request_start_time = clock w (ticks w),
      st_retrieval_end_time = clock w (Suc (Suc (ticks w))),
      st_new_message_id = None,
      st_is_synthetic = is_syn\<rparr>"

definition world_at_generate :: "world \<Rightarrow> call list \<Rightarrow> world" where
  "world_at_generate w made =
     w\<lparr>calls := calls w @ made, ticks := Suc (Suc (Suc (ticks w)))\<rparr>"

subsection \<open>Concrete collaborators\<close>

text \<open>
  A store of five chunks that answers a request for \<open>k\<close> chunks with its \<open>k\<close> nearest, a
  scorer that rates a passage by its length, and variants of them that raise.
\<close>

definition chunk :: "string \<Rightarrow> Document" where
  "chunk text = \<lparr>page_content = text, metadata = [(''source'', ''lei.pdf'')]\<rparr>"

definition example_store :: "(Document \<times> real) list" where
  "example_store =
     [(chunk ''aa'', 1/10), (chunk ''bbbb'', 2/10), (chunk ''cc'', 3/10),
      (chunk ''dddd'', 4/10), (chunk ''e'', 5/10)]"

definition example_retriever :: VectorRetriever where
  "example_retriever =
     \<lparr>vectordb = (\<lambda>query k. Inr (take (nat k) example_store)),
      cross_encoder = (\<lambda>pairs. Inr (map (\<lambda>(query, text). real (length text)) pairs))\<rparr>"

definition failing_scorer :: VectorRetriever where
  "failing_scorer =
     example_retriever\<lparr>cross_encoder := (\<lambda>pairs. Inl (Exception ''CUDA out of memory''))\<rparr>"

definition empty_store :: VectorRetriever where
  "empty_store = example_retriever\<lparr>vectordb := (\<lambda>query k. Inr [])\<rparr>"

definition failing_store :: VectorRetriever where
  "failing_store =
     example_retriever\<lparr>vectordb := (\<lambda>query k. Inl (Exception ''collection not found''))\<rparr>"

definition unsorted_store :: VectorRetriever where
  "unsorted_store =
     example_retriever\<lparr>vectordb := (\<lambda>query k. Inr (take (nat k) (rev example_store)))\<rparr>"

text \<open>
  A chain whose model answers every prompt with the same sentence, one whose model
  raises, a world with an empty table, a clock that advances by one second at every
  reading and a rounding that leaves every number as it is, and the same world with a
  database that raises on commit.
\<close>

definition example_chain :: RAGChain where
  "example_chain =
     \<lparr>self_session_id = ''sessao-1'',
      model_ainvoke = (\<lambda>messages. Inr ''O prazo termina em dezembro.''),
      model_get_num_tokens_from_messages = (\<lambda>messages. Inr (int (length messages))),
      model_get_num_tokens = (\<lambda>text. Inl (Exception ''tokenizer unavailable'')),
      retriever = example_retriever,
      system_prompt = ''Data: {{DATA_ATUAL}} <documentos_oficiais>{{INSERIR_CONTEXTO_AQUI}}'',
      strftime = (\<lambda>t. ''03/11/2026'')\<rparr>"

definition failing_llm :: RAGChain where
  "failing_llm =
     example_chain\<lparr>model_ainvoke := (\<lambda>messages. Inl (Exception ''quota exceeded''))\<rparr>"

definition example_world :: world where
  "example_world =
     \<lparr>clock = (\<lambda>n. 1000000 * int n),
      ticks = 0,
      to_float = (\<lambda>x. x),
      chat_history = [],
      execute_error = None,
      commit_error = None,
      calls = []\<rparr>"

definition locked_world :: world where
  "locked_world = example_world\<lparr>commit_error := Some (Exception ''database is locked'')\<rparr>"

text \<open>
  A rounding to the nearest multiple of \<open>2\<^sup>-\<^sup>4\<^sup>0\<close>, and a world that rounds with it and
  whose clock advances by a fifth of a second at every reading.
\<close>

definition binary_rounding :: "real \<Rightarrow> real" where
  "binary_rounding x = real_of_int (round (x * 2 ^ 40)) / 2 ^ 40"

definition coarse_world :: world where
  "coarse_world =
     \<lparr>clock = (\<lambda>n. 200000 * int n),
      ticks = 0,
      to_float = binary_rounding,
      chat_history = [],
      execute_error = None,
      commit_error = None,
      calls = []\<rparr>"

section \<open>Sorting and slicing\<close>

declare str_replace.simps [simp del]

lemmas example_defs =
  default_settings_def example_retriever_def example_store_def chunk_def
  failing_scorer_def empty_store_def failing_store_def unsorted_store_def

lemma insort_key_map_comm:
  "insort_key f (g x) (map g xs) = map g (insort_key (\<lambda>a. f (g a)) x xs)"
  by (induction xs) simp_all

lemma sort_key_map_comm:
  "sort_key f (map g xs) = map g (sort_key (\<lambda>a. f (g a)) xs)"
  by (induction xs) (simp_all add: insort_key_map_comm)

lemma list_sort_map_comm:
  "list_sort key r (map g xs) = map g (list_sort (\<lambda>a. key (g a)) r xs)"
  by (simp add: list_sort_def sort_key_map_comm rev_map)

lemma mset_list_sort: "mset (list_sort key r xs) = mset xs"
  by (simp add: list_sort_def)

lemma length_list_sort: "length (list_sort key r xs) = length xs"
  by (simp add: list_sort_def)

text \<open>Equal keys keep their order, in both directions of the sort.\<close>

lemma list_sort_stable:
  "filter (\<lambda>y. key y = k) (list_sort key r xs) = filter (\<lambda>y. key y = k) xs"
proof (cases r)
  case True
  have "filter (\<lambda>y. key y = k) (rev (sort_key key (rev xs)))
      = rev (filter (\<lambda>y. key y = k) (sort_key key (rev xs)))"
    by (simp add: rev_filter)
  also have "\<dots> = rev (filter (\<lambda>y. key y = k) (rev xs))"
    by (simp only: sort_key_stable)
  also have "\<dots> = filter (\<lambda>y. key y = k) xs"
    by (simp add: rev_filter)
  finally show ?thesis using True by (simp add: list_sort_def)
next
  case False
  then show ?thesis by (simp add: list_sort_def sort_key_stable)
qed

lemma list_sort_descending:
  "sorted_wrt (\<lambda>a b. key b \<le> key a) (list_sort key True xs)"
proof -
  have "sorted (map key (sort_key key (rev xs)))" by simp
  then have "sorted_wrt (\<lambda>a b. key a \<le> key b) (sort_key key (rev xs))"
    by (simp add: sorted_wrt_map)
  then show ?thesis by (simp add: list_sort_def sorted_wrt_rev)
qed

lemma list_sort_ascending: "sorted (map key (list_sort key False xs))"
  by (simp add: list_sort_def)

lemma slice_to_map: "slice_to k (map f xs) = map f (slice_to k xs)"
  by (simp add: slice_to_def take_map)

lemma sorted_wrt_slice_to: "sorted_wrt R xs \<Longrightarrow> sorted_wrt R (slice_to k xs)"
  by (simp add: slice_to_def)

lemma length_slice_to: "0 \<le> k \<Longrightarrow> length (slice_to k xs) = min (nat k) (length xs)"
  by (simp add: slice_to_def min_def)

lemma hd_slice_to: "slice_to k xs \<noteq> [] \<Longrightarrow> hd (slice_to k xs) = hd xs"
  by (auto simp: slice_to_def split: if_splits)

lemma sorted_wrt_hd_greatest:
  fixes key :: "'a \<Rightarrow> 'k::linorder"
  shows "sorted_wrt (\<lambda>a b. key b \<le> key a) xs \<Longrightarrow> p \<in> set xs \<Longrightarrow> key p \<le> key (hd xs)"
  by (cases xs) auto

section \<open>Properties of the retrieval engine\<close>

lemma zip_drop_old_score:
  "map (\<lambda>((doc, old_score), rerank_score). (doc, rerank_score)) (zip cands scores)
     = zip (map fst cands) scores"
  by (induction cands arbitrary: scores) (auto simp: zip_Cons1 split: list.splits)

lemma snd_drop_old_score:
  "(\<lambda>a. snd ((\<lambda>((doc, old_score), rerank_score). (doc, rerank_score)) a)) = snd"
  by auto

lemma rerank_final:
  "map (\<lambda>((doc, old_score), rerank_score). (doc, rerank_score))
       (slice_to k (list_sort snd True (zip cands scores)))
   = slice_to k (list_sort snd True (zip (map fst cands) scores))"
proof -
  let ?g = "\<lambda>((doc, old_score), rerank_score). (doc, rerank_score)"
  have "list_sort snd True (map ?g (zip cands scores))
        = map ?g (list_sort (\<lambda>a. snd (?g a)) True (zip cands scores))"
    by (rule list_sort_map_comm)
  then have "list_sort snd True (zip (map fst cands) scores)
        = map ?g (list_sort snd True (zip cands scores))"
    by (simp only: zip_drop_old_score snd_drop_old_score)
  then show ?thesis by (simp add: slice_to_map)
qed

lemma rerank_success:
  assumes "vectordb self query (SEARCH_K_RAW settings) = Inr cands" "cands \<noteq> []"
    and "cross_encoder self (map (\<lambda>(doc, score). (query, page_content doc)) cands) = Inr scores"
  shows "retrieve_context_with_scores settings self query =
     ([Similarity_search query (SEARCH_K_RAW settings),
       Predict (map (\<lambda>(doc, score). (query, page_content doc)) cands)],
      Inr (slice_to (SEARCH_K_FINAL settings)
             (list_sort snd True (zip (map fst cands) scores))))"
  using assms by (simp add: retrieve_context_with_scores_def Let_def rerank_final)

lemma rerank_success_properties:
  fixes cands :: "(Document \<times> real) list" and scores :: "real list"
  defines "full \<equiv> list_sort snd True (zip (map fst cands) scores)"
  shows "mset full = mset (zip (map fst cands) scores)"
    and "sorted_wrt (\<lambda>a b. snd b \<le> snd a) full"
    and "\<forall>s. filter (\<lambda>p. snd p = s) full = filter (\<lambda>p. snd p = s) (zip (map fst cands) scores)"
    and "sorted_wrt (\<lambda>a b. snd b \<le> snd a) (slice_to k full)"
    and "0 \<le> k \<longrightarrow> length (slice_to k full) = min (nat k) (min (length cands) (length scores))"
    and "slice_to k full \<noteq> [] \<longrightarrow>
           (\<forall>p \<in> set (zip (map fst cands) scores). snd p \<le> snd (hd (slice_to k full)))"
proof -
  show perm: "mset full = mset (zip (map fst cands) scores)"
    unfolding full_def by (rule mset_list_sort)
  show desc: "sorted_wrt (\<lambda>a b. snd b \<le> snd a) full"
    unfolding full_def by (rule list_sort_descending)
  show "\<forall>s. filter (\<lambda>p. snd p = s) full = filter (\<lambda>p. snd p = s) (zip (map fst cands) scores)"
    unfolding full_def by (simp add: list_sort_stable)
  show "sorted_wrt (\<lambda>a b. snd b \<le> snd a) (slice_to k full)"
    using desc by (rule sorted_wrt_slice_to)
  show "0 \<le> k \<longrightarrow> length (slice_to k full) = min (nat k) (min (length cands) (length scores))"
    unfolding full_def by (simp add: length_slice_to length_list_sort)
  show "slice_to k full \<noteq> [] \<longrightarrow>
           (\<forall>p \<in> set (zip (map fst cands) scores). snd p \<le> snd (hd (slice_to k full)))"
  proof (intro impI ballI)
    fix p assume ne: "slice_to k full \<noteq> []" and p: "p \<in> set (zip (map fst cands) scores)"
    from p have "p \<in> set full"
      using perm by (metis set_mset_mset)
    with desc have "snd p \<le> snd (hd full)"
      by (rule sorted_wrt_hd_greatest)
    with ne show "snd p \<le> snd (hd (slice_to k full))"
      by (simp add: hd_slice_to)
  qed
qed

text \<open>Whatever the collaborators do, a returned result is ordered and bounded.\<close>

lemma rerank_outcome_ordered:
  assumes "snd (retrieve_context_with_scores settings self query) = Inr res"
  shows "sorted_wrt (\<lambda>a b. snd b \<le> snd a) res
       \<and> (0 \<le> SEARCH_K_FINAL settings \<longrightarrow> int (length res) \<le> SEARCH_K_FINAL settings)
       \<and> (\<forall>p \<in> set res. snd p \<le> snd (hd res))"
proof (cases "vectordb self query (SEARCH_K_RAW settings)")
  case (Inl e)
  with assms show ?thesis
    by (simp add: retrieve_context_with_scores_def)
next
  case (Inr cands)
  show ?thesis
  proof (cases "cands = []")
    case True
    with Inr assms show ?thesis
      by (auto simp: retrieve_context_with_scores_def)
  next
    case False
    show ?thesis
    proof (cases "cross_encoder self (map (\<lambda>(doc, score). (query, page_content doc)) cands)")
      case (Inl e)
      with Inr False assms show ?thesis
        by (auto simp: retrieve_context_with_scores_def Let_def)
    next
      case scored: (Inr scores)
      let ?full = "list_sort snd True (zip (map fst cands) scores)"
      from rerank_success [OF Inr False scored] assms
      have res: "res = slice_to (SEARCH_K_FINAL settings) ?full"
        by simp
      have desc: "sorted_wrt (\<lambda>a b. snd b \<le> snd a) res"
        unfolding res by (rule rerank_success_properties)
      have "0 \<le> SEARCH_K_FINAL settings \<longrightarrow> int (length res) \<le> SEARCH_K_FINAL settings"
        unfolding res by (auto simp: length_slice_to min_def)
      moreover have "\<forall>p \<in> set res. snd p \<le> snd (hd res)"
        using desc by (auto intro: sorted_wrt_hd_greatest)
      ultimately show ?thesis
        using desc by simp
    qed
  qed
qed

lemma example_recall:
  "vectordb example_retriever ''prazo'' (SEARCH_K_RAW default_settings) = Inr example_store"
  by (simp add: example_defs)

lemma example_scores:
  "cross_encoder example_retriever
     (map (\<lambda>(doc, score). (''prazo'', page_content doc)) example_store) = Inr [2, 4, 2, 4, 1]"
  by (simp add: example_defs)

lemma example_rerank:
  "retrieve_context_with_scores default_settings example_retriever ''prazo''
     = ([Similarity_search ''prazo'' 20,
         Predict [(''prazo'', ''aa''), (''prazo'', ''bbbb''), (''prazo'', ''cc''),
                  (''prazo'', ''dddd''), (''prazo'', ''e'')]],
        Inr [(chunk ''bbbb'', 4), (chunk ''dddd'', 4), (chunk ''aa'', 2)])"
  by (simp add: retrieve_context_with_scores_def example_defs list_sort_def slice_to_def)

lemma vector_only_success:
  assumes "vectordb self query (SEARCH_K_FINAL settings) = Inr xs"
  shows "retrieve_context_vector_search_only settings self query
           = ([Similarity_search query (SEARCH_K_FINAL settings)], Inr (list_sort snd False xs))"
  using assms by (simp add: retrieve_context_vector_search_only_def Let_def list_sort_def)

section \<open>Properties of the orchestrator\<close>

lemma generate_llm_failure:
  assumes "model_ainvoke self (prompt_of self state w) = Inl e"
  shows "generate self state w =
     (Inr (state\<lparr>st_answer := erro_tecnico @ str e, st_new_message_id := None\<rparr>),
      w\<lparr>ticks := Suc (ticks w),
        calls := calls w @ [Ainvoke (prompt_of self state w) (Inl e)]\<rparr>)"
  using assms
  by (simp add: generate_def now_def Let_def prompt_of_def)

lemma generate_commit_failure:
  assumes "model_ainvoke self (prompt_of self state w) = Inr a" "commit_error w = Some e"
  shows "generate self state w =
     (Inl e,
      w\<lparr>calls := calls w @ [Ainvoke (prompt_of self state w) (Inr a)],
        ticks := Suc (Suc (ticks w))\<rparr>)"
  using assms
  by (simp add: generate_def save_message_async_def now_def Let_def prompt_of_def)

lemma generate_persists:
  assumes "model_ainvoke self (prompt_of self state w) = Inr a" "commit_error w = None"
  shows "generate self state w =
       (Inr (state\<lparr>st_answer := a, st_new_message_id := Some (next_id (chat_history w))\<rparr>),
        w\<lparr>calls := calls w @ [Ainvoke (prompt_of self state w) (Inr a)],
          ticks := Suc (Suc (ticks w)),
          chat_history := chat_history w @ [persisted_turn self state w a]\<rparr>)"
  using assms
  by (simp add: generate_def save_message_async_def now_def Let_def prompt_of_def
        persisted_turn_def)

lemma retrieval_calls_no_llm:
  "Ainvoke msgs out \<notin> set (fst (retrieve_context settings self query))"
  by (auto simp: retrieve_context_def retrieve_context_with_scores_def Let_def
           split: sum.splits prod.splits if_splits)

lemma retrieve_context_recall_error:
  "vectordb self query (SEARCH_K_RAW settings) = Inl e \<Longrightarrow>
   retrieve_context settings self query
     = ([Similarity_search query (SEARCH_K_RAW settings)], Inl e)"
  by (simp add: retrieve_context_def retrieve_context_with_scores_def Let_def)

lemma retrieve_context_returns:
  "vectordb self query (SEARCH_K_RAW settings) = Inr cands \<Longrightarrow>
   \<exists>made docs. retrieve_context settings self query = (made, Inr docs)"
  by (simp add: retrieve_context_def retrieve_context_with_scores_def Let_def
           split: sum.splits)

lemma generate_response_history_error:
  "execute_error w = Some e \<Longrightarrow>
   generate_response settings self question is_syn w
     = (Inl e, w\<lparr>ticks := Suc (Suc (ticks w))\<rparr>)"
  by (simp add: generate_response_def graph_ainvoke_def load_history_def now_def Let_def)

lemma generate_response_recall_error:
  "execute_error w = None \<Longrightarrow>
   retrieve_context settings (retriever self) question = (made, Inl e) \<Longrightarrow>
   generate_response settings self question is_syn w
     = (Inl e, w\<lparr>ticks := Suc (Suc (ticks w)), calls := calls w @ made\<rparr>)"
  by (simp add: generate_response_def graph_ainvoke_def load_history_def retrieve_def
        now_def Let_def)

lemma generate_response_reaches_generate:
  "execute_error w = None \<Longrightarrow>
   retrieve_context settings (retriever self) question = (made, Inr docs) \<Longrightarrow>
   generate_response settings self question is_syn w
     = (case generate self (state_at_generate self question is_syn w docs)
               (world_at_generate w made) of
          (Inl e, w') \<Rightarrow> (Inl e, w')
        | (Inr result, w') \<Rightarrow>
            (Inr \<lparr>answer = st_answer result, message_id = st_new_message_id result\<rparr>, w'))"
  by (simp add: generate_response_def graph_ainvoke_def load_history_def retrieve_def
        now_def Let_def state_at_generate_def world_at_generate_def)

text \<open>The five ways a request ends.\<close>

lemma generate_response_cases:
  assumes run: "generate_response settings self question is_syn w = (r, w')"
  obtains
    (history_error) e where
      "execute_error w = Some e" "r = Inl e"
      "chat_history w' = chat_history w" "calls w' = calls w"
  | (recall_error) e made where
      "execute_error w = None"
      "retrieve_context settings (retriever self) question = (made, Inl e)"
      "r = Inl e" "chat_history w' = chat_history w" "calls w' = calls w @ made"
  | (llm_error) e made docs where
      "execute_error w = None"
      "retrieve_context settings (retriever self) question = (made, Inr docs)"
      "model_ainvoke self (prompt_of self (state_at_generate self question is_syn w docs)
                             (world_at_generate w made)) = Inl e"
      "r = Inr \<lparr>answer = erro_tecnico @ str e, message_id = None\<rparr>"
      "chat_history w' = chat_history w"
      "calls w' = calls w @ made @
         [Ainvoke (prompt_of self (state_at_generate self question is_syn w docs)
                     (world_at_generate w made)) (Inl e)]"
  | (commit_failure) e a made docs where
      "execute_error w = None"
      "retrieve_context settings (retriever self) question = (made, Inr docs)"
      "model_ainvoke self (prompt_of self (state_at_generate self question is_syn w docs)
                             (world_at_generate w made)) = Inr a"
      "commit_error w = Some e" "r = Inl e"
      "chat_history w' = chat_history w"
      "calls w' = calls w @ made @
         [Ainvoke (prompt_of self (state_at_generate self question is_syn w docs)
                     (world_at_generate w made)) (Inr a)]"
  | (persisted) a made docs where
      "execute_error w = None"
      "retrieve_context settings (retriever self) question = (made, Inr docs)"
      "model_ainvoke self (prompt_of self (state_at_generate self question is_syn w docs)
                             (world_at_generate w made)) = Inr a"
      "commit_error w = None"
      "r = Inr \<lparr>answer = a, message_id = Some (next_id (chat_history w))\<rparr>"
      "chat_history w' = chat_history w @
         [persisted_turn self (state_at_generate self question is_syn w docs)
            (world_at_generate w made) a]"
      "calls w' = calls w @ made @
         [Ainvoke (prompt_of self (state_at_generate self question is_syn w docs)
                     (world_at_generate w made)) (Inr a)]"
proof (cases "execute_error w")
  case (Some e)
  from generate_response_history_error [OF Some] run
  have "r = Inl e" "chat_history w' = chat_history w" "calls w' = calls w"
    by auto
  with Some show ?thesis by (rule history_error)
next
  case None
  obtain made outcome where rc:
    "retrieve_context settings (retriever self) question = (made, outcome)"
    by (cases "retrieve_context settings (retriever self) question")
  show ?thesis
  proof (cases outcome)
    case (Inl e)
    from generate_response_recall_error [OF None rc [unfolded Inl]] run
    have "r = Inl e" "chat_history w' = chat_history w" "calls w' = calls w @ made"
      by auto
    with None rc [unfolded Inl] show ?thesis by (rule recall_error)
  next
    case (Inr docs)
    let ?st = "state_at_generate self question is_syn w docs"
    let ?w = "world_at_generate w made"
    note rc' = rc [unfolded Inr]
    note reach = generate_response_reaches_generate [OF None rc', of is_syn]
    have same: "commit_error ?w = commit_error w" "chat_history ?w = chat_history w"
      "calls ?w = calls w @ made"
      by (simp_all add: world_at_generate_def)
    show ?thesis
    proof (cases "model_ainvoke self (prompt_of self ?st ?w)")
      case llm: (Inl e)
      from reach run generate_llm_failure [OF llm]
      have "r = Inr \<lparr>answer = erro_tecnico @ str e, message_id = None\<rparr>"
        "chat_history w' = chat_history w"
        "calls w' = calls w @ made @ [Ainvoke (prompt_of self ?st ?w) (Inl e)]"
        by (auto simp: same)
      with None rc' llm show ?thesis by (rule llm_error)
    next
      case llm: (Inr a)
      show ?thesis
      proof (cases "commit_error w")
        case None': None
        from reach run generate_persists [OF llm, unfolded same, OF None']
        have "r = Inr \<lparr>answer = a, message_id = Some (next_id (chat_history w))\<rparr>"
          "chat_history w' = chat_history w @ [persisted_turn self ?st ?w a]"
          "calls w' = calls w @ made @ [Ainvoke (prompt_of self ?st ?w) (Inr a)]"
          by (auto simp: same)
        with None rc' llm None' show ?thesis by (rule persisted)
      next
        case (Some e)
        from reach run generate_commit_failure [OF llm, unfolded same, OF Some]
        have "r = Inl e" "chat_history w' = chat_history w"
          "calls w' = calls w @ made @ [Ainvoke (prompt_of self ?st ?w) (Inr a)]"
          by (auto simp: same)
        with None rc' llm Some show ?thesis by (rule commit_failure)
      qed
    qed
  qed
qed

lemma persisted_turn_fields:
  "row_id (persisted_turn self state w a) = Some (next_id (chat_history w))"
  "bot_response (persisted_turn self state w a) = a"
  "is_synthetic (persisted_turn self state w a) = st_is_synthetic state"
  by (simp_all add: persisted_turn_def)

lemma world_at_generate_fields:
  "chat_history (world_at_generate w made) = chat_history w"
  "commit_error (world_at_generate w made) = commit_error w"
  "calls (world_at_generate w made) = calls w @ made"
  "to_float (world_at_generate w made) = to_float w"
  "clock (world_at_generate w made) = clock w"
  "ticks (world_at_generate w made) = Suc (Suc (Suc (ticks w)))"
  by (simp_all add: world_at_generate_def)

lemma load_history_keeps_flag:
  "load_history self state w = (Inr state', w') \<Longrightarrow>
     st_is_synthetic state' = st_is_synthetic state"
  by (auto simp: load_history_def Let_def split: option.splits)

lemma retrieve_keeps_flag:
  "retrieve settings self state w = (Inr state', w') \<Longrightarrow>
     st_is_synthetic state' = st_is_synthetic state"
  by (auto simp: retrieve_def now_def Let_def split: prod.splits sum.splits)

lemma generate_cases:
  obtains
    (llm_error) e where
      "model_ainvoke self (prompt_of self state w) = Inl e"
      "generate self state w =
        (Inr (state\<lparr>st_answer := erro_tecnico @ str e, st_new_message_id := None\<rparr>),
         w\<lparr>ticks := Suc (ticks w),
           calls := calls w @ [Ainvoke (prompt_of self state w) (Inl e)]\<rparr>)"
  | (commit_failure) a e where
      "model_ainvoke self (prompt_of self state w) = Inr a" "commit_error w = Some e"
      "generate self state w =
        (Inl e,
         w\<lparr>calls := calls w @ [Ainvoke (prompt_of self state w) (Inr a)],
           ticks := Suc (Suc (ticks w))\<rparr>)"
  | (persisted) a where
      "model_ainvoke self (prompt_of self state w) = Inr a" "commit_error w = None"
      "generate self state w =
        (Inr (state\<lparr>st_answer := a, st_new_message_id := Some (next_id (chat_history w))\<rparr>),
         w\<lparr>calls := calls w @ [Ainvoke (prompt_of self state w) (Inr a)],
           ticks := Suc (Suc (ticks w)),
           chat_history := chat_history w @ [persisted_turn self state w a]\<rparr>)"
proof (cases "model_ainvoke self (prompt_of self state w)")
  case (Inl e)
  then show ?thesis
    using generate_llm_failure llm_error by blast
next
  case (Inr a)
  show ?thesis
  proof (cases "commit_error w")
    case None
    with Inr show ?thesis
      using generate_persists persisted by blast
  next
    case (Some e)
    with Inr show ?thesis
      using generate_commit_failure commit_failure by blast
  qed
qed

lemma generate_keeps_flag:
  "generate self state w = (Inr state', w') \<Longrightarrow>
     st_is_synthetic state' = st_is_synthetic state"
  by (cases rule: generate_cases [of self state w]) auto

lemma generate_stores_flag:
  assumes "generate self state w = (r, w')" "chat_history w' \<noteq> chat_history w"
  shows "\<exists>row. chat_history w' = chat_history w @ [row]
           \<and> is_synthetic row = st_is_synthetic state"
  using assms
  by (cases rule: generate_cases [of self state w]) (auto simp: persisted_turn_def)

lemma total_seconds_nonneg:
  assumes "fl 0 = 0" and "\<And>x y. x \<le> y \<Longrightarrow> fl x \<le> fl y" and "0 \<le> d"
  shows "0 \<le> total_seconds fl d"
proof -
  from \<open>0 \<le> d\<close> have "(0::real) \<le> real_of_int d / 1000000"
    by simp
  then have "fl 0 \<le> fl (real_of_int d / 1000000)"
    by (rule assms(2))
  with \<open>fl 0 = 0\<close> show ?thesis
    by (simp add: total_seconds_def)
qed

text \<open>
  The three exact quotients telescope, so the rounded total differs from the sum of the
  two rounded parts by the three rounding errors at most.
\<close>

lemma seconds_telescope:
  "real_of_int (c - a) / 1000000
     = real_of_int (b - a) / 1000000 + real_of_int (c - b) / 1000000"
  by (simp add: add_divide_distrib [symmetric])

lemma total_seconds_sum_bound:
  assumes rel: "\<And>d::int. \<bar>fl (real_of_int d / 1000000) - real_of_int d / 1000000\<bar>
                   \<le> u * \<bar>real_of_int d / 1000000\<bar>"
  shows "\<bar>total_seconds fl (c - a) - (total_seconds fl (b - a) + total_seconds fl (c - b))\<bar>
           \<le> u * (\<bar>real_of_int (c - a) / 1000000\<bar> + \<bar>real_of_int (b - a) / 1000000\<bar>
                    + \<bar>real_of_int (c - b) / 1000000\<bar>)"
proof -
  define T R G where "T = real_of_int (c - a) / 1000000"
    and "R = real_of_int (b - a) / 1000000" and "G = real_of_int (c - b) / 1000000"
  have exact: "T = R + G"
    unfolding T_def R_def G_def by (rule seconds_telescope)
  have errors: "\<bar>fl T - T\<bar> \<le> u * \<bar>T\<bar>" "\<bar>fl R - R\<bar> \<le> u * \<bar>R\<bar>" "\<bar>fl G - G\<bar> \<le> u * \<bar>G\<bar>"
    unfolding T_def R_def G_def by (rule rel)+
  have "\<bar>fl T - (fl R + fl G)\<bar> \<le> \<bar>fl T - T\<bar> + \<bar>fl R - R\<bar> + \<bar>fl G - G\<bar>"
    using exact by linarith
  also have "\<dots> \<le> u * \<bar>T\<bar> + u * \<bar>R\<bar> + u * \<bar>G\<bar>"
    using errors by linarith
  also have "\<dots> = u * (\<bar>T\<bar> + \<bar>R\<bar> + \<bar>G\<bar>)"
    by (simp add: algebra_simps)
  finally show ?thesis
    unfolding total_seconds_def T_def R_def G_def .
qed

lemma total_seconds_sum_bound_ordered:
  assumes rel: "\<And>d::int. \<bar>fl (real_of_int d / 1000000) - real_of_int d / 1000000\<bar>
                   \<le> u * \<bar>real_of_int d / 1000000\<bar>"
    and "a \<le> b" "b \<le> c"
  shows "\<bar>total_seconds fl (c - a) - (total_seconds fl (b - a) + total_seconds fl (c - b))\<bar>
           \<le> 2 * u * (real_of_int (c - a) / 1000000)"
proof -
  define T R G where "T = real_of_int (c - a) / 1000000"
    and "R = real_of_int (b - a) / 1000000" and "G = real_of_int (c - b) / 1000000"
  have exact: "T = R + G"
    unfolding T_def R_def G_def by (rule seconds_telescope)
  have "0 \<le> R" "0 \<le> G"
    using assms(2,3) by (simp_all add: R_def G_def)
  with exact have sum: "\<bar>T\<bar> + \<bar>R\<bar> + \<bar>G\<bar> = 2 * T"
    by linarith
  have twice: "u * (\<bar>T\<bar> + \<bar>R\<bar> + \<bar>G\<bar>) = 2 * u * T"
    unfolding sum by simp
  have "\<bar>total_seconds fl (c - a) - (total_seconds fl (b - a) + total_seconds fl (c - b))\<bar>
          \<le> u * (\<bar>T\<bar> + \<bar>R\<bar> + \<bar>G\<bar>)"
    unfolding T_def R_def G_def by (rule total_seconds_sum_bound [OF rel])
  then have "\<bar>total_seconds fl (c - a) - (total_seconds fl (b - a) + total_seconds fl (c - b))\<bar>
          \<le> 2 * u * T"
    unfolding twice .
  then show ?thesis
    unfolding T_def .
qed

lemma save_message_async_row:
  assumes "save_message_async self user_msg bot_msg is_syn metrics w = (Inr i, w')"
  shows "\<exists>row. chat_history w' = chat_history w @ [row]
      \<and> row_id row = i \<and> i = Some (next_id (chat_history w))
      \<and> is_synthetic row = is_syn
      \<and> request_start_time row = m_request_start_time metrics
      \<and> retrieval_end_time row = Some (m_retrieval_end_time metrics)
      \<and> response_end_time row = Some (m_response_end_time metrics)
      \<and> retrieval_duration_sec row
          = total_seconds (to_float w)
              (m_retrieval_end_time metrics - m_request_start_time metrics)
      \<and> generation_duration_sec row
          = total_seconds (to_float w)
              (m_response_end_time metrics - m_retrieval_end_time metrics)
      \<and> total_duration_sec row
          = total_seconds (to_float w)
              (m_response_end_time metrics - m_request_start_time metrics)"
  using assms
  by (auto simp: save_message_async_def Let_def split: option.splits)

lemma example_retrieval:
  "retrieve_context default_settings example_retriever ''prazo''
     = (fst (retrieve_context_with_scores default_settings example_retriever ''prazo''),
        Inr [chunk ''bbbb'', chunk ''dddd'', chunk ''aa''])"
  by (simp add: retrieve_context_def example_rerank)

lemma example_chain_persists:
  assumes world: "execute_error w = None" "commit_error w = None" "chat_history w = []"
    and run: "generate_response default_settings example_chain ''prazo'' flag w = (r, w')"
  shows "r = Inr \<lparr>answer = ''O prazo termina em dezembro.'', message_id = Some 1\<rparr>"
    and "\<exists>row. chat_history w' = [row]"
proof -
  have llm: "\<And>msgs. model_ainvoke example_chain msgs = Inr ''O prazo termina em dezembro.''"
    by (simp add: example_chain_def)
  have retr: "retriever example_chain = example_retriever"
    by (simp add: example_chain_def)
  have first: "next_id [] = 1"
    by (simp add: next_id_def)
  from run show "r = Inr \<lparr>answer = ''O prazo termina em dezembro.'', message_id = Some 1\<rparr>"
  proof (cases rule: generate_response_cases)
    case (history_error e)
    with world show ?thesis by simp
  next
    case (recall_error e made)
    with retr example_retrieval show ?thesis by simp
  next
    case (llm_error e made docs)
    with llm show ?thesis by simp
  next
    case (commit_failure e a made docs)
    with world show ?thesis by simp
  next
    case (persisted a made docs)
    with llm world first show ?thesis by simp
  qed
  from run show "\<exists>row. chat_history w' = [row]"
  proof (cases rule: generate_response_cases)
    case (history_error e)
    with world show ?thesis by simp
  next
    case (recall_error e made)
    with retr example_retrieval show ?thesis by simp
  next
    case (llm_error e made docs)
    with llm show ?thesis by simp
  next
    case (commit_failure e a made docs)
    with world show ?thesis by simp
  next
    case (persisted a made docs)
    with world show ?thesis by simp
  qed
qed

lemma example_world_fields:
  "execute_error example_world = None" "commit_error example_world = None"
  "chat_history example_world = []"
  by (simp_all add: example_world_def)

text \<open>
  The rounding to a multiple of \<open>2\<^sup>-\<^sup>4\<^sup>0\<close> keeps 0, is monotone, and on a whole number of
  microseconds expressed in seconds its relative error is at most \<open>10\<^sup>-\<^sup>6\<close>.
\<close>

lemma binary_rounding_zero: "binary_rounding 0 = 0"
  by (simp add: binary_rounding_def)

lemma binary_rounding_mono: "x \<le> y \<Longrightarrow> binary_rounding x \<le> binary_rounding y"
  unfolding binary_rounding_def
  by (intro divide_right_mono of_int_le_iff [THEN iffD2] round_mono mult_right_mono) simp_all

lemma binary_rounding_error:
  "\<bar>binary_rounding (real_of_int d / 1000000) - real_of_int d / 1000000\<bar>
     \<le> (1 / 1000000) * \<bar>real_of_int d / 1000000\<bar>"
proof (cases "d = 0")
  case True
  then show ?thesis by (simp add: binary_rounding_def)
next
  case False
  define x where "x = real_of_int d / 1000000"
  have "\<bar>real_of_int (round (x * 2 ^ 40)) - x * 2 ^ 40\<bar> \<le> 1 / 2"
    by (rule of_int_round_abs_le)
  then have "\<bar>real_of_int (round (x * 2 ^ 40)) / 2 ^ 40 - x\<bar> \<le> (1 / 2) / 2 ^ 40"
    by (simp add: field_simps)
  also have "\<dots> \<le> 1 / 1000000 * (1 / 1000000)"
    by simp
  also have "\<dots> \<le> 1 / 1000000 * \<bar>x\<bar>"
  proof -
    from False have "1 \<le> \<bar>d\<bar>" by linarith
    then have "1 \<le> \<bar>real_of_int d\<bar>" by linarith
    then show ?thesis by (simp add: x_def)
  qed
  finally show ?thesis
    by (simp add: binary_rounding_def x_def)
qed

section \<open>Claims about the retrieval engine\<close>

text \<open>
  Claim C1. Recall followed by re-ranking returns the recall candidates, each paired with
  the relevance score the scorer gave it, sorted by that score from highest to lowest
  with equal scores left in recall order, and cut by the slice \<^verbatim>\<open>[:K_final]\<close>. Whenever
  the operation returns a result, its scores never increase along the ranks and the first
  entry has the highest score; for a non-negative \<open>K_final\<close> the result has at most
  \<open>K_final\<close> entries, and exactly the smaller of \<open>K_final\<close> and the number of scored
  candidates when the scorer answers.
\<close>

theorem rerank_sorted_stable_truncated:
  "(\<forall>res. snd (retrieve_context_with_scores settings self query) = Inr res \<longrightarrow>
       sorted_wrt (\<lambda>a b. snd b \<le> snd a) res
     \<and> (0 \<le> SEARCH_K_FINAL settings \<longrightarrow> int (length res) \<le> SEARCH_K_FINAL settings)
     \<and> (\<forall>p \<in> set res. snd p \<le> snd (hd res)))
   \<and> (\<forall>cands scores.
        vectordb self query (SEARCH_K_RAW settings) = Inr cands \<longrightarrow> cands \<noteq> [] \<longrightarrow>
        cross_encoder self (map (\<lambda>(doc, score). (query, page_content doc)) cands) = Inr scores \<longrightarrow>
        (\<exists>full res.
            snd (retrieve_context_with_scores settings self query) = Inr res
          \<and> res = slice_to (SEARCH_K_FINAL settings) full
          \<and> mset full = mset (zip (map fst cands) scores)
          \<and> sorted_wrt (\<lambda>a b. snd b \<le> snd a) full
          \<and> (\<forall>s. filter (\<lambda>p. snd p = s) full
                   = filter (\<lambda>p. snd p = s) (zip (map fst cands) scores))
          \<and> (0 \<le> SEARCH_K_FINAL settings \<longrightarrow>
               length res = min (nat (SEARCH_K_FINAL settings))
                              (min (length cands) (length scores)))
          \<and> (res \<noteq> [] \<longrightarrow>
               (\<forall>p \<in> set (zip (map fst cands) scores). snd p \<le> snd (hd res)))))"
proof (intro conjI allI impI)
  fix res
  assume "snd (retrieve_context_with_scores settings self query) = Inr res"
  from rerank_outcome_ordered [OF this]
  show "sorted_wrt (\<lambda>a b. snd b \<le> snd a) res"
    and "0 \<le> SEARCH_K_FINAL settings \<Longrightarrow> int (length res) \<le> SEARCH_K_FINAL settings"
    and "\<forall>p \<in> set res. snd p \<le> snd (hd res)"
    by simp_all
next
  fix cands scores
  assume recall: "vectordb self query (SEARCH_K_RAW settings) = Inr cands" "cands \<noteq> []"
    and scorer: "cross_encoder self (map (\<lambda>(doc, score). (query, page_content doc)) cands)
                   = Inr scores"
  let ?full = "list_sort snd True (zip (map fst cands) scores)"
  have ret: "snd (retrieve_context_with_scores settings self query)
          = Inr (slice_to (SEARCH_K_FINAL settings) ?full)"
    using rerank_success [OF recall scorer] by simp
  show "\<exists>full res.
            snd (retrieve_context_with_scores settings self query) = Inr res
          \<and> res = slice_to (SEARCH_K_FINAL settings) full
          \<and> mset full = mset (zip (map fst cands) scores)
          \<and> sorted_wrt (\<lambda>a b. snd b \<le> snd a) full
          \<and> (\<forall>s. filter (\<lambda>p. snd p = s) full
                   = filter (\<lambda>p. snd p = s) (zip (map fst cands) scores))
          \<and> (0 \<le> SEARCH_K_FINAL settings \<longrightarrow>
               length res = min (nat (SEARCH_K_FINAL settings))
                              (min (length cands) (length scores)))
          \<and> (res \<noteq> [] \<longrightarrow>
               (\<forall>p \<in> set (zip (map fst cands) scores). snd p \<le> snd (hd res)))"
    by (rule exI [of _ ?full], rule exI [of _ "slice_to (SEARCH_K_FINAL settings) ?full"])
       (simp add: ret rerank_success_properties)
qed

text \<open>
  The store of five chunks with the defaults \<open>K_raw = 20\<close> and \<open>K_final = 3\<close>: the scores
  are 2, 4, 2, 4, 1 and the three entries returned are the two of score 4, in recall
  order, and the first of score 2.
\<close>

theorem rerank_sorted_stable_truncated_witness:
  "vectordb example_retriever ''prazo'' (SEARCH_K_RAW default_settings) = Inr example_store
   \<and> example_store \<noteq> []
   \<and> cross_encoder example_retriever
       (map (\<lambda>(doc, score). (''prazo'', page_content doc)) example_store) = Inr [2, 4, 2, 4, 1]
   \<and> snd (retrieve_context_with_scores default_settings example_retriever ''prazo'')
       = Inr [(chunk ''bbbb'', 4), (chunk ''dddd'', 4), (chunk ''aa'', 2)]
   \<and> (\<exists>res. snd (retrieve_context_with_scores default_settings example_retriever ''prazo'')
               = Inr res
         \<and> sorted_wrt (\<lambda>a b. snd b \<le> snd a) res \<and> length res = 3
         \<and> snd (hd res) = 4)"
proof -
  have ne: "example_store \<noteq> []"
    by (simp add: example_store_def)
  have len: "length example_store = 5"
    by (simp add: example_store_def)
  have k: "SEARCH_K_FINAL default_settings = 3"
    by (simp add: default_settings_def)
  from rerank_sorted_stable_truncated [of default_settings example_retriever "''prazo''"]
    example_recall ne example_scores
  obtain full res where
    res: "snd (retrieve_context_with_scores default_settings example_retriever ''prazo'')
            = Inr res"
    and ordered: "sorted_wrt (\<lambda>a b. snd b \<le> snd a) res"
    and n: "length res = min (nat 3) (min (length example_store) (length [2, 4, 2, 4, 1::real]))"
    unfolding k by (metis zero_le_numeral)
  from res have "snd (hd res) = 4"
    by (auto simp: example_rerank)
  with res ordered n len example_recall ne example_scores example_rerank show ?thesis
    by auto
qed

text \<open>
  Claim C3. When the recall returns candidates and the scorer raises on the pairs built
  from them, recall followed by re-ranking returns the empty list: the exception does
  not reach the caller. The scorer was called, once, after the one recall request.
\<close>

theorem scorer_failure_returns_empty:
  assumes "vectordb self query (SEARCH_K_RAW settings) = Inr cands" "cands \<noteq> []"
    and "cross_encoder self (map (\<lambda>(doc, score). (query, page_content doc)) cands) = Inl e"
  shows "retrieve_context_with_scores settings self query =
     ([Similarity_search query (SEARCH_K_RAW settings),
       Predict (map (\<lambda>(doc, score). (query, page_content doc)) cands)],
      Inr [])"
  using assms by (simp add: retrieve_context_with_scores_def Let_def)

text \<open>The store of five chunks with a scorer that raises.\<close>

theorem scorer_failure_returns_empty_witness:
  "vectordb failing_scorer ''prazo'' (SEARCH_K_RAW default_settings) = Inr example_store
   \<and> example_store \<noteq> []
   \<and> cross_encoder failing_scorer
        (map (\<lambda>(doc, score). (''prazo'', page_content doc)) example_store)
       = Inl (Exception ''CUDA out of memory'')
   \<and> snd (retrieve_context_with_scores default_settings failing_scorer ''prazo'') = Inr []"
proof -
  have recall: "vectordb failing_scorer ''prazo'' (SEARCH_K_RAW default_settings)
                  = Inr example_store"
    by (simp add: example_defs)
  have ne: "example_store \<noteq> []"
    by (simp add: example_store_def)
  have raises: "cross_encoder failing_scorer
        (map (\<lambda>(doc, score). (''prazo'', page_content doc)) example_store)
       = Inl (Exception ''CUDA out of memory'')"
    by (simp add: failing_scorer_def)
  from scorer_failure_returns_empty [OF recall ne raises] recall ne raises
  show ?thesis by simp
qed

text \<open>
  Claim C7. When the store answers the recall request with no chunk, recall followed by
  re-ranking returns the empty list and raises nothing; the only call made is the recall
  request, so the scorer is not invoked. The score-free retrieval returns the empty list
  as well, and the \<^verbatim>\<open>retrieve\<close> node puts it in the state as an empty context.
\<close>

theorem empty_recall_returns_empty:
  assumes "vectordb self query (SEARCH_K_RAW settings) = Inr []"
  shows "retrieve_context_with_scores settings self query
           = ([Similarity_search query (SEARCH_K_RAW settings)], Inr [])
       \<and> retrieve_context settings self query
           = ([Similarity_search query (SEARCH_K_RAW settings)], Inr [])
       \<and> (\<forall>chain state w. retriever chain = self \<longrightarrow> st_question state = query \<longrightarrow>
             fst (retrieve settings chain state w)
               = Inr (state\<lparr>st_context := [], st_retrieval_end_time := clock w (ticks w)\<rparr>))"
  using assms
  by (simp add: retrieve_context_with_scores_def retrieve_context_def retrieve_def now_def
        Let_def)

text \<open>A store that holds no chunk.\<close>

theorem empty_recall_returns_empty_witness:
  "vectordb empty_store ''prazo'' (SEARCH_K_RAW default_settings) = Inr []
   \<and> retrieve_context_with_scores default_settings empty_store ''prazo''
       = ([Similarity_search ''prazo'' 20], Inr [])"
proof -
  have recall: "vectordb empty_store ''prazo'' (SEARCH_K_RAW default_settings) = Inr []"
    by (simp add: empty_store_def)
  from empty_recall_returns_empty [OF recall] recall show ?thesis
    by (simp add: default_settings_def)
qed

text \<open>
  Claim C9. The score-free retrieval makes the calls of the scored retrieval and returns
  the first components of its result, in the same order; when the scored retrieval
  raises, it raises the same exception.
\<close>

theorem retrieve_context_is_projection:
  "retrieve_context settings self query
     = (fst (retrieve_context_with_scores settings self query),
        map_sum id (map fst) (snd (retrieve_context_with_scores settings self query)))"
proof (cases "retrieve_context_with_scores settings self query")
  case (Pair made outcome)
  have "(\<lambda>(doc, score). doc) = (fst :: Document \<times> real \<Rightarrow> Document)"
    by auto
  with Pair show ?thesis
    by (cases outcome) (simp_all add: retrieve_context_def)
qed

text \<open>
  Claim C6. The recall-only retrieval makes one request to the store, for \<open>K_final\<close>
  chunks. Whatever it returns is sorted by distance from lowest to highest. When the
  store answers with the list \<open>xs\<close>, the result is \<open>xs\<close> sorted by distance, equal
  distances left in the order of the store: it has the length of \<open>xs\<close>, which is
  \<open>K_final\<close>, or the size of the store when that is smaller, for a store that answers a
  request for \<open>k\<close> chunks with the \<open>k\<close> nearest of the \<open>n\<close> it holds.
\<close>

theorem vector_only_sorted_ascending:
  "fst (retrieve_context_vector_search_only settings self query)
     = [Similarity_search query (SEARCH_K_FINAL settings)]
   \<and> (\<forall>res. snd (retrieve_context_vector_search_only settings self query) = Inr res \<longrightarrow>
         sorted (map snd res))
   \<and> (\<forall>xs. vectordb self query (SEARCH_K_FINAL settings) = Inr xs \<longrightarrow>
         (\<exists>res. snd (retrieve_context_vector_search_only settings self query) = Inr res
            \<and> sorted (map snd res)
            \<and> mset res = mset xs
            \<and> (\<forall>d. filter (\<lambda>p. snd p = d) res = filter (\<lambda>p. snd p = d) xs)
            \<and> length res = length xs
            \<and> (\<forall>n. length xs = min (nat (SEARCH_K_FINAL settings)) n \<longrightarrow>
                   length res = min (nat (SEARCH_K_FINAL settings)) n)))"
proof (intro conjI allI impI)
  show "fst (retrieve_context_vector_search_only settings self query)
     = [Similarity_search query (SEARCH_K_FINAL settings)]"
    by (simp add: retrieve_context_vector_search_only_def Let_def split: sum.splits)
next
  fix res
  assume "snd (retrieve_context_vector_search_only settings self query) = Inr res"
  then show "sorted (map snd res)"
    by (cases "vectordb self query (SEARCH_K_FINAL settings)")
       (auto simp: retrieve_context_vector_search_only_def Let_def list_sort_ascending
             split: if_splits)
next
  fix xs
  assume "vectordb self query (SEARCH_K_FINAL settings) = Inr xs"
  from vector_only_success [OF this]
  have "snd (retrieve_context_vector_search_only settings self query)
          = Inr (list_sort snd False xs)"
    by simp
  then show "\<exists>res. snd (retrieve_context_vector_search_only settings self query) = Inr res
            \<and> sorted (map snd res)
            \<and> mset res = mset xs
            \<and> (\<forall>d. filter (\<lambda>p. snd p = d) res = filter (\<lambda>p. snd p = d) xs)
            \<and> length res = length xs
            \<and> (\<forall>n. length xs = min (nat (SEARCH_K_FINAL settings)) n \<longrightarrow>
                   length res = min (nat (SEARCH_K_FINAL settings)) n)"
    by (simp add: list_sort_ascending mset_list_sort list_sort_stable length_list_sort)
qed

text \<open>A store that answers with its chunks in the wrong order.\<close>

theorem vector_only_sorted_ascending_witness:
  "vectordb unsorted_store ''prazo'' (SEARCH_K_FINAL default_settings)
     = Inr [(chunk ''e'', 5/10), (chunk ''dddd'', 4/10), (chunk ''cc'', 3/10)]
   \<and> retrieve_context_vector_search_only default_settings unsorted_store ''prazo''
       = ([Similarity_search ''prazo'' 3],
          Inr [(chunk ''cc'', 3/10), (chunk ''dddd'', 4/10), (chunk ''e'', 5/10)])
   \<and> (\<exists>res. snd (retrieve_context_vector_search_only default_settings unsorted_store ''prazo'')
               = Inr res
          \<and> sorted (map snd res) \<and> length res = 3)"
proof -
  have recall: "vectordb unsorted_store ''prazo'' (SEARCH_K_FINAL default_settings)
     = Inr [(chunk ''e'', 5/10), (chunk ''dddd'', 4/10), (chunk ''cc'', 3/10)]"
    by (simp add: example_defs)
  have run: "retrieve_context_vector_search_only default_settings unsorted_store ''prazo''
       = ([Similarity_search ''prazo'' 3],
          Inr [(chunk ''cc'', 3/10), (chunk ''dddd'', 4/10), (chunk ''e'', 5/10)])"
    by (simp add: retrieve_context_vector_search_only_def Let_def example_defs list_sort_def)
  from vector_only_sorted_ascending [of default_settings unsorted_store "''prazo''"] recall
  have "\<exists>res. snd (retrieve_context_vector_search_only default_settings unsorted_store ''prazo'')
               = Inr res
          \<and> sorted (map snd res) \<and> length res = 3"
    by auto
  with recall run show ?thesis
    by blast
qed

text \<open>
  Claim C10. When the store raises on the request of the recall-only retrieval, the
  operation returns the empty list: the exception does not reach the caller.
\<close>

theorem vector_only_store_failure_returns_empty:
  assumes "vectordb self query (SEARCH_K_FINAL settings) = Inl e"
  shows "retrieve_context_vector_search_only settings self query
           = ([Similarity_search query (SEARCH_K_FINAL settings)], Inr [])"
  using assms by (simp add: retrieve_context_vector_search_only_def Let_def)

text \<open>A store that raises on every request.\<close>

theorem vector_only_store_failure_returns_empty_witness:
  "vectordb failing_store ''prazo'' (SEARCH_K_FINAL default_settings)
     = Inl (Exception ''collection not found'')
   \<and> retrieve_context_vector_search_only default_settings failing_store ''prazo''
       = ([Similarity_search ''prazo'' 3], Inr [])"
proof -
  have raises: "vectordb failing_store ''prazo'' (SEARCH_K_FINAL default_settings)
     = Inl (Exception ''collection not found'')"
    by (simp add: failing_store_def)
  from vector_only_store_failure_returns_empty [OF raises] raises show ?thesis
    by (simp add: default_settings_def)
qed

section \<open>Claims about the orchestrator\<close>

text \<open>
  Claim C2. When the last collaborator call of a request is an invocation of the language
  model that raised \<open>e\<close>, so that the \<^verbatim>\<open>generate\<close> stage was reached and its model call
  failed, \<^verbatim>\<open>generate_response\<close> returns the answer made of the literal prefix
  \<^verbatim>\<open>Erro t\<close>, U+00E9, \<^verbatim>\<open>cnico: \<close> followed by \<^verbatim>\<open>str(e)\<close>, with a null message
  identifier, and the table of turns is unchanged.
  At the stage itself: whenever the model raises on the prompt \<^verbatim>\<open>generate\<close> builds, the
  stage returns that answer and a null identifier and writes no row.
\<close>

theorem llm_failure_not_persisted:
  assumes run: "generate_response settings self question is_syn w = (r, w')"
    and raised: "calls w' = calls w @ made @ [Ainvoke msgs (Inl e)]"
  shows "r = Inr \<lparr>answer = ''Erro t'' @ [CHR 0xE9] @ ''cnico: '' @ str e,
                   message_id = None\<rparr>
       \<and> chat_history w' = chat_history w
       \<and> (\<forall>state w0 e0. model_ainvoke self (prompt_of self state w0) = Inl e0 \<longrightarrow>
             fst (generate self state w0)
               = Inr (state\<lparr>st_answer := ''Erro t'' @ [CHR 0xE9] @ ''cnico: '' @ str e0,
                           st_new_message_id := None\<rparr>)
           \<and> chat_history (snd (generate self state w0)) = chat_history w0)"
proof (intro conjI allI impI)
  fix state w0 e0
  assume "model_ainvoke self (prompt_of self state w0) = Inl e0"
  from generate_llm_failure [OF this, unfolded erro_tecnico_def]
  show "fst (generate self state w0)
          = Inr (state\<lparr>st_answer := ''Erro t'' @ [CHR 0xE9] @ ''cnico: '' @ str e0,
                      st_new_message_id := None\<rparr>)"
    and "chat_history (snd (generate self state w0)) = chat_history w0"
    by simp_all
next
  from run
  have "r = Inr \<lparr>answer = ''Erro t'' @ [CHR 0xE9] @ ''cnico: '' @ str e, message_id = None\<rparr>
       \<and> chat_history w' = chat_history w"
  proof (cases rule: generate_response_cases)
    case (history_error e')
    with raised show ?thesis by simp
  next
    case (recall_error e' made')
    with raised have "Ainvoke msgs (Inl e) \<in> set made'"
      by simp
    moreover have "made' = fst (retrieve_context settings (retriever self) question)"
      using recall_error by simp
    ultimately show ?thesis
      using retrieval_calls_no_llm by blast
  next
    case (llm_error e' made' docs)
    with raised have "e' = e"
      by simp
    with llm_error show ?thesis by (simp add: erro_tecnico_def)
  next
    case (commit_failure e' a made' docs)
    with raised show ?thesis by simp
  next
    case (persisted a made' docs)
    with raised show ?thesis by simp
  qed
  then show "r = Inr \<lparr>answer = ''Erro t'' @ [CHR 0xE9] @ ''cnico: '' @ str e, message_id = None\<rparr>"
    and "chat_history w' = chat_history w"
    by simp_all
qed

text \<open>A request to the chain whose model raises, in the world with the empty table.\<close>

theorem llm_failure_not_persisted_witness:
  "\<exists>w' made msgs.
      generate_response default_settings failing_llm ''prazo'' False example_world
        = (Inr \<lparr>answer = ''Erro t'' @ [CHR 0xE9] @ ''cnico: quota exceeded'', message_id = None\<rparr>, w')
    \<and> calls w' = calls example_world @ made @ [Ainvoke msgs (Inl (Exception ''quota exceeded''))]
    \<and> chat_history w' = chat_history example_world"
proof -
  obtain r w' where run:
    "generate_response default_settings failing_llm ''prazo'' False example_world = (r, w')"
    by (cases "generate_response default_settings failing_llm ''prazo'' False example_world")
  have no_fault: "execute_error example_world = None"
    by (simp add: example_world_def)
  have llm: "\<And>msgs. model_ainvoke failing_llm msgs = Inl (Exception ''quota exceeded'')"
    by (simp add: failing_llm_def)
  have retr: "retriever failing_llm = example_retriever"
    by (simp add: failing_llm_def example_chain_def)
  from run have "\<exists>made msgs.
      calls w' = calls example_world @ made @ [Ainvoke msgs (Inl (Exception ''quota exceeded''))]"
  proof (cases rule: generate_response_cases)
    case (history_error e)
    with no_fault show ?thesis by simp
  next
    case (recall_error e made)
    with retr example_retrieval show ?thesis by simp
  next
    case (llm_error e made docs)
    with llm show ?thesis by auto
  next
    case (commit_failure e a made docs)
    with llm show ?thesis by simp
  next
    case (persisted a made docs)
    with llm show ?thesis by simp
  qed
  then obtain made msgs where
    raised: "calls w' = calls example_world @ made @ [Ainvoke msgs (Inl (Exception ''quota exceeded''))]"
    by blast
  from llm_failure_not_persisted [OF run raised] run raised show ?thesis
    by auto
qed

text \<open>
  Claim C4. The row a request persists carries the three clock readings of the request:
  the start, the end of retrieval and the end of the response. Each duration is the
  difference of its two bounding readings in seconds, rounded to a float. For a rounding
  \<open>fl\<close> that keeps 0, is monotone and has relative error at most \<open>u\<close> on a count of
  microseconds expressed in seconds, the retrieval and generation durations are
  non-negative whenever the readings are in order, and the total duration differs from
  the sum of the other two by at most \<open>u\<close> times the sum of the three exact durations,
  that is by at most \<open>2u\<close> times the exact total when the readings are in order. The same
  holds of every row \<^verbatim>\<open>save_message_async\<close> writes, for the timestamps in its metrics.
  Rounding to the nearest double is such an \<open>fl\<close> with \<open>u = 2\<^sup>-\<^sup>5\<^sup>3\<close> on the counts a
  \<^verbatim>\<open>timedelta\<close> can hold.
\<close>

theorem persisted_durations:
  fixes fl :: "real \<Rightarrow> real" and u :: real
  assumes zero: "fl 0 = 0"
    and mono: "\<And>x y. x \<le> y \<Longrightarrow> fl x \<le> fl y"
    and rel: "\<And>d::int. \<bar>fl (real_of_int d / 1000000) - real_of_int d / 1000000\<bar>
                   \<le> u * \<bar>real_of_int d / 1000000\<bar>"
  shows
  "(\<forall>r w'. to_float w = fl \<longrightarrow>
       generate_response settings self question is_syn w = (r, w') \<longrightarrow>
       chat_history w' \<noteq> chat_history w \<longrightarrow>
       (\<exists>row t_ret t_res.
           chat_history w' = chat_history w @ [row]
         \<and> request_start_time row = clock w (ticks w)
         \<and> retrieval_end_time row = Some t_ret \<and> t_ret = clock w (ticks w + 2)
         \<and> response_end_time row = Some t_res \<and> t_res = clock w (ticks w + 4)
         \<and> retrieval_duration_sec row = total_seconds fl (t_ret - request_start_time row)
         \<and> generation_duration_sec row = total_seconds fl (t_res - t_ret)
         \<and> total_duration_sec row = total_seconds fl (t_res - request_start_time row)
         \<and> (request_start_time row \<le> t_ret \<longrightarrow> 0 \<le> retrieval_duration_sec row)
         \<and> (t_ret \<le> t_res \<longrightarrow> 0 \<le> generation_duration_sec row)
         \<and> \<bar>total_duration_sec row
              - (retrieval_duration_sec row + generation_duration_sec row)\<bar>
             \<le> u * (\<bar>real_of_int (t_res - request_start_time row) / 1000000\<bar>
                      + \<bar>real_of_int (t_ret - request_start_time row) / 1000000\<bar>
                      + \<bar>real_of_int (t_res - t_ret) / 1000000\<bar>)
         \<and> (request_start_time row \<le> t_ret \<longrightarrow> t_ret \<le> t_res \<longrightarrow>
               \<bar>total_duration_sec row
                  - (retrieval_duration_sec row + generation_duration_sec row)\<bar>
                 \<le> 2 * u * (real_of_int (t_res - request_start_time row) / 1000000))))
   \<and> (\<forall>user_msg bot_msg metrics w0 i w1. to_float w0 = fl \<longrightarrow>
         save_message_async self user_msg bot_msg is_syn metrics w0 = (Inr i, w1) \<longrightarrow>
         (\<exists>row. chat_history w1 = chat_history w0 @ [row]
            \<and> (m_request_start_time metrics \<le> m_retrieval_end_time metrics \<longrightarrow>
                 0 \<le> retrieval_duration_sec row)
            \<and> (m_retrieval_end_time metrics \<le> m_response_end_time metrics \<longrightarrow>
                 0 \<le> generation_duration_sec row)
            \<and> (m_request_start_time metrics \<le> m_retrieval_end_time metrics \<longrightarrow>
                m_retrieval_end_time metrics \<le> m_response_end_time metrics \<longrightarrow>
                 \<bar>total_duration_sec row
                    - (retrieval_duration_sec row + generation_duration_sec row)\<bar>
                   \<le> 2 * u * (real_of_int (m_response_end_time metrics
                                              - m_request_start_time metrics) / 1000000))))"
proof (intro conjI allI impI)
  fix r w'
  assume fl: "to_float w = fl"
    and run: "generate_response settings self question is_syn w = (r, w')"
    and changed: "chat_history w' \<noteq> chat_history w"
  from run changed obtain a made docs where
    rows: "chat_history w' = chat_history w @
         [persisted_turn self (state_at_generate self question is_syn w docs)
            (world_at_generate w made) a]"
    by (cases rule: generate_response_cases) auto
  let ?row = "persisted_turn self (state_at_generate self question is_syn w docs)
            (world_at_generate w made) a"
  let ?t0 = "clock w (ticks w)"
  let ?t_ret = "clock w (ticks w + 2)"
  let ?t_res = "clock w (ticks w + 4)"
  have two: "ticks w + 2 = Suc (Suc (ticks w))"
    and four: "ticks w + 4 = Suc (Suc (Suc (Suc (ticks w))))"
    by simp_all
  have fields:
    "request_start_time ?row = ?t0"
    "retrieval_end_time ?row = Some ?t_ret"
    "response_end_time ?row = Some ?t_res"
    "retrieval_duration_sec ?row = total_seconds fl (?t_ret - ?t0)"
    "generation_duration_sec ?row = total_seconds fl (?t_res - ?t_ret)"
    "total_duration_sec ?row = total_seconds fl (?t_res - ?t0)"
    by (simp_all add: persisted_turn_def state_at_generate_def world_at_generate_fields
          fl two four)
  have nonneg: "?t0 \<le> ?t_ret \<longrightarrow> 0 \<le> total_seconds fl (?t_ret - ?t0)"
    "?t_ret \<le> ?t_res \<longrightarrow> 0 \<le> total_seconds fl (?t_res - ?t_ret)"
    by (simp_all add: total_seconds_nonneg [of fl, OF zero mono])
  have ordered: "?t0 \<le> ?t_ret \<longrightarrow> ?t_ret \<le> ?t_res \<longrightarrow>
      \<bar>total_seconds fl (?t_res - ?t0)
         - (total_seconds fl (?t_ret - ?t0) + total_seconds fl (?t_res - ?t_ret))\<bar>
        \<le> 2 * u * (real_of_int (?t_res - ?t0) / 1000000)"
    using total_seconds_sum_bound_ordered [OF rel] by blast
  show "\<exists>row t_ret t_res.
           chat_history w' = chat_history w @ [row]
         \<and> request_start_time row = clock w (ticks w)
         \<and> retrieval_end_time row = Some t_ret \<and> t_ret = clock w (ticks w + 2)
         \<and> response_end_time row = Some t_res \<and> t_res = clock w (ticks w + 4)
         \<and> retrieval_duration_sec row = total_seconds fl (t_ret - request_start_time row)
         \<and> generation_duration_sec row = total_seconds fl (t_res - t_ret)
         \<and> total_duration_sec row = total_seconds fl (t_res - request_start_time row)
         \<and> (request_start_time row \<le> t_ret \<longrightarrow> 0 \<le> retrieval_duration_sec row)
         \<and> (t_ret \<le> t_res \<longrightarrow> 0 \<le> generation_duration_sec row)
         \<and> \<bar>total_duration_sec row
              - (retrieval_duration_sec row + generation_duration_sec row)\<bar>
             \<le> u * (\<bar>real_of_int (t_res - request_start_time row) / 1000000\<bar>
                      + \<bar>real_of_int (t_ret - request_start_time row) / 1000000\<bar>
                      + \<bar>real_of_int (t_res - t_ret) / 1000000\<bar>)
         \<and> (request_start_time row \<le> t_ret \<longrightarrow> t_ret \<le> t_res \<longrightarrow>
               \<bar>total_duration_sec row
                  - (retrieval_duration_sec row + generation_duration_sec row)\<bar>
                 \<le> 2 * u * (real_of_int (t_res - request_start_time row) / 1000000))"
    apply (rule exI [of _ ?row], rule exI [of _ ?t_ret], rule exI [of _ ?t_res])
    apply (simp only: fields rows)
    apply (intro conjI refl nonneg ordered total_seconds_sum_bound [OF rel])
    done
next
  fix user_msg bot_msg metrics w0 i w1
  assume fl: "to_float w0 = fl"
    and "save_message_async self user_msg bot_msg is_syn metrics w0 = (Inr i, w1)"
  from save_message_async_row [OF this(2)] obtain row where
    row: "chat_history w1 = chat_history w0 @ [row]"
      "retrieval_duration_sec row
          = total_seconds fl (m_retrieval_end_time metrics - m_request_start_time metrics)"
      "generation_duration_sec row
          = total_seconds fl (m_response_end_time metrics - m_retrieval_end_time metrics)"
      "total_duration_sec row
          = total_seconds fl (m_response_end_time metrics - m_request_start_time metrics)"
    unfolding fl by blast
  show "\<exists>row. chat_history w1 = chat_history w0 @ [row]
            \<and> (m_request_start_time metrics \<le> m_retrieval_end_time metrics \<longrightarrow>
                 0 \<le> retrieval_duration_sec row)
            \<and> (m_retrieval_end_time metrics \<le> m_response_end_time metrics \<longrightarrow>
                 0 \<le> generation_duration_sec row)
            \<and> (m_request_start_time metrics \<le> m_retrieval_end_time metrics \<longrightarrow>
                m_retrieval_end_time metrics \<le> m_response_end_time metrics \<longrightarrow>
                 \<bar>total_duration_sec row
                    - (retrieval_duration_sec row + generation_duration_sec row)\<bar>
                   \<le> 2 * u * (real_of_int (m_response_end_time metrics
                                              - m_request_start_time metrics) / 1000000))"
    apply (rule exI [of _ row])
    apply (simp only: row)
    apply (intro conjI refl impI total_seconds_nonneg [of fl, OF zero mono]
             total_seconds_sum_bound_ordered [OF rel])
    apply simp_all
    done
qed

text \<open>
  With the rounding to a multiple of \<open>2\<^sup>-\<^sup>4\<^sup>0\<close> and a clock that advances by a fifth of a
  second at every reading, retrieval and generation take 0.4 seconds each. Both are
  rounded down and the total of 0.8 seconds is rounded up, so the stored total exceeds
  the sum of the two stored parts by \<open>2\<^sup>-\<^sup>4\<^sup>0\<close>, within the bound.
\<close>

theorem persisted_durations_witness:
  "\<exists>w' row.
      generate_response default_settings example_chain ''prazo'' True coarse_world
        = (Inr \<lparr>answer = ''O prazo termina em dezembro.'', message_id = Some 1\<rparr>, w')
    \<and> chat_history w' = chat_history coarse_world @ [row]
    \<and> chat_history w' \<noteq> chat_history coarse_world
    \<and> retrieval_duration_sec row = 439804651110 / 2 ^ 40
    \<and> generation_duration_sec row = 439804651110 / 2 ^ 40
    \<and> total_duration_sec row = 879609302221 / 2 ^ 40
    \<and> total_duration_sec row - (retrieval_duration_sec row + generation_duration_sec row)
        = 1 / 2 ^ 40
    \<and> \<bar>total_duration_sec row - (retrieval_duration_sec row + generation_duration_sec row)\<bar>
        \<le> 2 * (1 / 1000000) * (8 / 10)"
proof -
  obtain r w' where run:
    "generate_response default_settings example_chain ''prazo'' True coarse_world = (r, w')"
    by (cases "generate_response default_settings example_chain ''prazo'' True coarse_world")
  have world: "execute_error coarse_world = None" "commit_error coarse_world = None"
    "chat_history coarse_world = []"
    by (simp_all add: coarse_world_def)
  note ex = example_chain_persists [OF world run]
  have fl: "to_float coarse_world = binary_rounding"
    by (simp add: coarse_world_def)
  from ex(2) have changed: "chat_history w' \<noteq> chat_history coarse_world"
    by (auto simp: world)
  have readings: "clock coarse_world (ticks coarse_world) = 0"
    "clock coarse_world (ticks coarse_world + 2) = 400000"
    "clock coarse_world (ticks coarse_world + 4) = 800000"
    by (simp_all add: coarse_world_def)
  from persisted_durations
      [of binary_rounding "1 / 1000000" coarse_world default_settings example_chain
          "''prazo''" True,
       OF binary_rounding_zero binary_rounding_mono binary_rounding_error]
    fl run changed
  obtain row where
    row: "chat_history w' = chat_history coarse_world @ [row]"
      "retrieval_duration_sec row = total_seconds binary_rounding (400000 - 0)"
      "generation_duration_sec row = total_seconds binary_rounding (800000 - 400000)"
      "total_duration_sec row = total_seconds binary_rounding (800000 - 0)"
      "\<bar>total_duration_sec row
         - (retrieval_duration_sec row + generation_duration_sec row)\<bar>
        \<le> 2 * (1 / 1000000) * (real_of_int (800000 - 0) / 1000000)"
    unfolding readings by force
  have durations: "retrieval_duration_sec row = 439804651110 / 2 ^ 40"
    "generation_duration_sec row = 439804651110 / 2 ^ 40"
    "total_duration_sec row = 879609302221 / 2 ^ 40"
    by (simp_all add: row total_seconds_def binary_rounding_def round_def)
  have gap: "total_duration_sec row
      - (retrieval_duration_sec row + generation_duration_sec row) = 1 / 2 ^ 40"
    unfolding durations by simp
  from row(5) have bound:
    "\<bar>total_duration_sec row - (retrieval_duration_sec row + generation_duration_sec row)\<bar>
        \<le> 2 * (1 / 1000000) * (8 / 10)"
    by simp
  from run ex(1) row(1) changed durations gap bound show ?thesis
    by blast
qed

text \<open>
  Claim C5. Whenever a request writes a row, that row is the only one added, its
  \<^verbatim>\<open>is_synthetic\<close> column equals the argument of \<^verbatim>\<open>generate_response\<close>, and its id is the
  message identifier returned. No node changes the flag in the state: not
  \<^verbatim>\<open>load_history\<close>, not \<^verbatim>\<open>retrieve\<close>, not \<^verbatim>\<open>generate\<close>, which stores the flag of its state.
\<close>

theorem is_synthetic_stored_unchanged:
  "(\<forall>r w'. generate_response settings self question is_syn w = (r, w') \<longrightarrow>
        chat_history w' \<noteq> chat_history w \<longrightarrow>
        (\<exists>row res. chat_history w' = chat_history w @ [row]
           \<and> is_synthetic row = is_syn
           \<and> r = Inr res \<and> message_id res = row_id row))
   \<and> (\<forall>state w0 state' w1. load_history self state w0 = (Inr state', w1) \<longrightarrow>
          st_is_synthetic state' = st_is_synthetic state)
   \<and> (\<forall>state w0 state' w1. retrieve settings self state w0 = (Inr state', w1) \<longrightarrow>
          st_is_synthetic state' = st_is_synthetic state)
   \<and> (\<forall>state w0 state' w1. generate self state w0 = (Inr state', w1) \<longrightarrow>
          st_is_synthetic state' = st_is_synthetic state)
   \<and> (\<forall>state w0 r w1. generate self state w0 = (r, w1) \<longrightarrow>
          chat_history w1 \<noteq> chat_history w0 \<longrightarrow>
          (\<exists>row. chat_history w1 = chat_history w0 @ [row]
             \<and> is_synthetic row = st_is_synthetic state))"
proof (intro conjI allI impI)
  fix r w'
  assume run: "generate_response settings self question is_syn w = (r, w')"
    and changed: "chat_history w' \<noteq> chat_history w"
  from run changed
  show "\<exists>row res. chat_history w' = chat_history w @ [row]
           \<and> is_synthetic row = is_syn
           \<and> r = Inr res \<and> message_id res = row_id row"
    by (cases rule: generate_response_cases)
       (auto simp: persisted_turn_def state_at_generate_def world_at_generate_def)
qed (blast dest: load_history_keeps_flag retrieve_keeps_flag generate_keeps_flag
       generate_stores_flag)+

text \<open>A synthetic request to the example chain: the row stored is marked synthetic.\<close>

theorem is_synthetic_stored_unchanged_witness:
  "\<exists>w' row.
      generate_response default_settings example_chain ''prazo'' True example_world
        = (Inr \<lparr>answer = ''O prazo termina em dezembro.'', message_id = Some 1\<rparr>, w')
    \<and> chat_history w' \<noteq> chat_history example_world
    \<and> chat_history w' = chat_history example_world @ [row]
    \<and> is_synthetic row = True
    \<and> row_id row = Some 1"
proof -
  obtain r w' where run:
    "generate_response default_settings example_chain ''prazo'' True example_world = (r, w')"
    by (cases "generate_response default_settings example_chain ''prazo'' True example_world")
  note ex = example_chain_persists [OF example_world_fields run]
  have empty: "chat_history example_world = []"
    by (simp add: example_world_def)
  from ex(2) have changed: "chat_history w' \<noteq> chat_history example_world"
    by (auto simp: empty)
  from is_synthetic_stored_unchanged
         [of default_settings example_chain "''prazo''" True example_world] run changed
  obtain row res where
    "chat_history w' = chat_history example_world @ [row]" "is_synthetic row = True"
    "r = Inr res" "message_id res = row_id row"
    by blast
  with run ex(1) changed show ?thesis
    by auto
qed

text \<open>
  Claim C8, as amended. Whenever \<^verbatim>\<open>generate_response\<close> returns, its last collaborator
  call is the one invocation of the language model, the message identifier is null
  exactly when that invocation raised, the answer is then the technical-error text and
  no row is written; when the model answered, the answer is the model's text and the
  identifier is the non-null id of the one row added, which holds that text. The function
  returns whenever the history query, the recall request and the commit raise nothing.
  An exception of the history query or of the recall request leaves
  \<^verbatim>\<open>generate_response\<close> as that exception, and so does one of the commit after the model
  has answered: in these cases no answer is returned.
\<close>

theorem generate_response_message_id:
  "(\<forall>res w'. generate_response settings self question is_syn w = (Inr res, w') \<longrightarrow>
      (\<exists>made msgs out.
          calls w' = calls w @ made @ [Ainvoke msgs out]
        \<and> out = model_ainvoke self msgs
        \<and> (message_id res = None \<longleftrightarrow> (\<exists>e. out = Inl e))
        \<and> (\<forall>e. out = Inl e \<longrightarrow>
              answer res = erro_tecnico @ str e \<and> chat_history w' = chat_history w)
        \<and> (\<forall>a. out = Inr a \<longrightarrow>
              answer res = a
            \<and> (\<exists>row. chat_history w' = chat_history w @ [row]
                  \<and> bot_response row = a
                  \<and> row_id row = message_id res \<and> message_id res \<noteq> None))))
   \<and> (\<forall>cands. execute_error w = None \<longrightarrow> commit_error w = None \<longrightarrow>
         vectordb (retriever self) question (SEARCH_K_RAW settings) = Inr cands \<longrightarrow>
         (\<exists>res w'. generate_response settings self question is_syn w = (Inr res, w')))
   \<and> (\<forall>e. execute_error w = Some e \<longrightarrow>
         fst (generate_response settings self question is_syn w) = Inl e)
   \<and> (\<forall>e. execute_error w = None \<longrightarrow>
         vectordb (retriever self) question (SEARCH_K_RAW settings) = Inl e \<longrightarrow>
         fst (generate_response settings self question is_syn w) = Inl e)
   \<and> (\<forall>e r w' made msgs a. commit_error w = Some e \<longrightarrow>
         generate_response settings self question is_syn w = (r, w') \<longrightarrow>
         calls w' = calls w @ made @ [Ainvoke msgs (Inr a)] \<longrightarrow>
         r = Inl e)"
proof (intro conjI allI impI)
  fix res w'
  assume run: "generate_response settings self question is_syn w = (Inr res, w')"
  let ?P = "\<lambda>made msgs out.
          calls w' = calls w @ made @ [Ainvoke msgs out]
        \<and> out = model_ainvoke self msgs
        \<and> (message_id res = None \<longleftrightarrow> (\<exists>e. out = Inl e))
        \<and> (\<forall>e. out = Inl e \<longrightarrow>
              answer res = erro_tecnico @ str e \<and> chat_history w' = chat_history w)
        \<and> (\<forall>a. out = Inr a \<longrightarrow>
              answer res = a
            \<and> (\<exists>row. chat_history w' = chat_history w @ [row]
                  \<and> bot_response row = a
                  \<and> row_id row = message_id res \<and> message_id res \<noteq> None))"
  from run show "\<exists>made msgs out. ?P made msgs out"
  proof (cases rule: generate_response_cases)
    case (llm_error e made docs)
    then have "?P made (prompt_of self (state_at_generate self question is_syn w docs)
                     (world_at_generate w made)) (Inl e)"
      by auto
    then show ?thesis by blast
  next
    case (persisted a made docs)
    then have "?P made (prompt_of self (state_at_generate self question is_syn w docs)
                     (world_at_generate w made)) (Inr a)"
      by (auto simp: persisted_turn_fields world_at_generate_fields)
    then show ?thesis by blast
  qed simp_all
next
  fix cands
  assume ok: "execute_error w = None" "commit_error w = None"
    and recall: "vectordb (retriever self) question (SEARCH_K_RAW settings) = Inr cands"
  obtain r w' where run: "generate_response settings self question is_syn w = (r, w')"
    by (cases "generate_response settings self question is_syn w")
  from retrieve_context_returns [OF recall] obtain made0 docs0 where
    rc: "retrieve_context settings (retriever self) question = (made0, Inr docs0)"
    by blast
  from run have "\<exists>res. r = Inr res"
  proof (cases rule: generate_response_cases)
    case (history_error e)
    with ok show ?thesis by simp
  next
    case (recall_error e made)
    with rc show ?thesis by simp
  next
    case (commit_failure e a made docs)
    with ok show ?thesis by simp
  qed simp_all
  with run show "\<exists>res w'. generate_response settings self question is_syn w = (Inr res, w')"
    by blast
next
  fix e
  assume "execute_error w = Some e"
  then show "fst (generate_response settings self question is_syn w) = Inl e"
    by (simp add: generate_response_history_error)
next
  fix e
  assume "execute_error w = None"
    and "vectordb (retriever self) question (SEARCH_K_RAW settings) = Inl e"
  then show "fst (generate_response settings self question is_syn w) = Inl e"
    by (simp add: generate_response_recall_error [OF _ retrieve_context_recall_error])
next
  fix e r w' made msgs a
  assume fault: "commit_error w = Some e"
    and run: "generate_response settings self question is_syn w = (r, w')"
    and answered: "calls w' = calls w @ made @ [Ainvoke msgs (Inr a)]"
  from run show "r = Inl e"
  proof (cases rule: generate_response_cases)
    case (history_error e')
    with answered show ?thesis by simp
  next
    case (recall_error e' made')
    with answered have "Ainvoke msgs (Inr a) \<in> set made'"
      by simp
    moreover have "made' = fst (retrieve_context settings (retriever self) question)"
      using recall_error by simp
    ultimately show ?thesis
      using retrieval_calls_no_llm by blast
  next
    case (llm_error e' made' docs)
    with answered show ?thesis by simp
  next
    case (commit_failure e' a' made' docs)
    with fault show ?thesis by simp
  next
    case (persisted a' made' docs)
    with fault show ?thesis by simp
  qed
qed

text \<open>A request to the example chain in the world with the empty table.\<close>

theorem generate_response_message_id_witness:
  "\<exists>w' made msgs row.
      generate_response default_settings example_chain ''prazo'' False example_world
        = (Inr \<lparr>answer = ''O prazo termina em dezembro.'', message_id = Some 1\<rparr>, w')
    \<and> calls w' = calls example_world @ made
                   @ [Ainvoke msgs (Inr ''O prazo termina em dezembro.'')]
    \<and> chat_history w' = chat_history example_world @ [row]
    \<and> row_id row = Some 1"
proof -
  obtain r w' where run:
    "generate_response default_settings example_chain ''prazo'' False example_world = (r, w')"
    by (cases "generate_response default_settings example_chain ''prazo'' False example_world")
  note ex = example_chain_persists [OF example_world_fields run]
  let ?res = "\<lparr>answer = ''O prazo termina em dezembro.'', message_id = Some 1\<rparr>"
  from run ex(1) have run':
    "generate_response default_settings example_chain ''prazo'' False example_world
       = (Inr ?res, w')"
    by simp
  from generate_response_message_id
         [of default_settings example_chain "''prazo''" False example_world] run'
  obtain made msgs out where
    log: "calls w' = calls example_world @ made @ [Ainvoke msgs out]"
      and out: "out = model_ainvoke example_chain msgs"
      and stored: "\<forall>a. out = Inr a \<longrightarrow>
              answer ?res = a
            \<and> (\<exists>row. chat_history w' = chat_history example_world @ [row]
                  \<and> bot_response row = a
                  \<and> row_id row = message_id ?res \<and> message_id ?res \<noteq> None)"
    by blast
  from out have "out = Inr ''O prazo termina em dezembro.''"
    by (simp add: example_chain_def)
  with log stored run' show ?thesis
    by auto
qed

text \<open>
  The claim as stated fails where the database raises on commit: the model has answered,
  yet \<^verbatim>\<open>generate_response\<close> raises and returns neither answer nor identifier.
\<close>

theorem generate_response_raises_counterexample:
  "fst (generate_response default_settings example_chain ''prazo'' False locked_world)
     = Inl (Exception ''database is locked'')
   \<and> chat_history (snd (generate_response default_settings example_chain ''prazo'' False
                          locked_world)) = []"
proof -
  obtain r w' where run:
    "generate_response default_settings example_chain ''prazo'' False locked_world = (r, w')"
    by (cases "generate_response default_settings example_chain ''prazo'' False locked_world")
  have world: "execute_error locked_world = None"
    "commit_error locked_world = Some (Exception ''database is locked'')"
    "chat_history locked_world = []"
    by (simp_all add: locked_world_def example_world_def)
  have llm: "\<And>msgs. model_ainvoke example_chain msgs = Inr ''O prazo termina em dezembro.''"
    by (simp add: example_chain_def)
  have retr: "retriever example_chain = example_retriever"
    by (simp add: example_chain_def)
  from run have "r = Inl (Exception ''database is locked'') \<and> chat_history w' = []"
  proof (cases rule: generate_response_cases)
    case (history_error e)
    with world show ?thesis by simp
  next
    case (recall_error e made)
    with retr example_retrieval show ?thesis by simp
  next
    case (llm_error e made docs)
    with llm show ?thesis by simp
  next
    case (commit_failure e a made docs)
    with world show ?thesis by simp
  next
    case (persisted a made docs)
    with world show ?thesis by simp
  qed
  with run show ?thesis by simp
qed

end
